theory Spec2Isabelle
  imports Complex_Main
begin

section \<open>JavaScript values\<close>

text \<open>
  The component works on parsed JSON (GeoJSON documents, their features and property
  bags) and on the values JavaScript derives from them. A finite number is kept as the
  rational it denotes; \<open>-0\<close> is identified with \<open>0\<close>, which no operation used by the
  component tells apart (both are falsy, both have the property key \<open>"0"\<close>).
\<close>

datatype jsnum = NaN | PosInf | NegInf | Fin rat

datatype jsval =
    JUndefined
  | JNull
  | JBool bool
  | JNum jsnum
  | JStr string
  | JArr "jsval list"
  | JObj "(string \<times> jsval) list"

datatype error = TypeError | SyntaxError

text \<open>
  Two conversions of the language runtime are not part of the repository and are taken
  as parameters: the numeric-literal parser behind \<open>Number(string)\<close> on a non-empty
  string, and the printing of a number that is not an integer below \<open>10^21\<close> in
  absolute value.
\<close>

record runtime =
  StringToNumber :: "string \<Rightarrow> jsnum"
  FractionToString :: "rat \<Rightarrow> string"

definition bindE :: "error + 'a \<Rightarrow> ('a \<Rightarrow> error + 'b) \<Rightarrow> error + 'b" where
  "bindE m f = (case m of Inl e \<Rightarrow> Inl e | Inr x \<Rightarrow> f x)"

text \<open>The first error of a list of results, or all the values.\<close>

fun sequenceE :: "(error + 'a) list \<Rightarrow> error + 'a list" where
  "sequenceE [] = Inr []"
| "sequenceE (r # rs) = bindE r (\<lambda>x. bindE (sequenceE rs) (\<lambda>xs. Inr (x # xs)))"

text \<open>Truthiness, as tested by \<open>||\<close>, \<open>&&\<close> and \<open>if\<close>.\<close>

fun truthy :: "jsval \<Rightarrow> bool" where
  "truthy JUndefined = False"
| "truthy JNull = False"
| "truthy (JBool b) = b"
| "truthy (JNum n) = (n \<noteq> NaN \<and> n \<noteq> Fin 0)"
| "truthy (JStr s) = (s \<noteq> [])"
| "truthy (JArr xs) = True"
| "truthy (JObj kvs) = True"

fun nullish :: "jsval \<Rightarrow> bool" where
  "nullish JUndefined = True"
| "nullish JNull = True"
| "nullish v = False"

text \<open>
  \<open>a || b\<close> and \<open>a ?? b\<close> on already evaluated operands (every right operand in the
  component is a literal or a read that cannot throw once the left one has not).
\<close>

definition or_else :: "jsval \<Rightarrow> jsval \<Rightarrow> jsval" where
  "or_else a b = (if truthy a then a else b)"

definition coalesce :: "jsval \<Rightarrow> jsval \<Rightarrow> jsval" where
  "coalesce a b = (if nullish a then b else a)"

text \<open>
  Reading a named property \<open>o.k\<close>. It throws on \<open>undefined\<close> and \<open>null\<close>; on an object
  it yields the own property or \<open>undefined\<close>; on any other value it yields \<open>undefined\<close>,
  since none of the names the component reads (\<open>properties\<close>, \<open>Cluster\<close>, \<open>color\<close>, ...)
  is a built-in member of strings, numbers, booleans or arrays. Members inherited from
  \<open>Object.prototype\<close> are not modelled: the only reads that can name one are the table
  lookups below, whose result is then only asked for its \<open>color\<close> or \<open>label\<close>, which
  no inherited member has.
\<close>

fun getProp :: "jsval \<Rightarrow> string \<Rightarrow> error + jsval" where
  "getProp JUndefined k = Inl TypeError"
| "getProp JNull k = Inl TypeError"
| "getProp (JObj kvs) k = Inr (case map_of kvs k of None \<Rightarrow> JUndefined | Some v \<Rightarrow> v)"
| "getProp v k = Inr JUndefined"

text \<open>Optional chaining \<open>o?.k\<close>.\<close>

definition optChain :: "jsval \<Rightarrow> string \<Rightarrow> error + jsval" where
  "optChain v k = (if nullish v then Inr JUndefined else getProp v k)"

subsection \<open>Number to string, string to number\<close>

definition digit_char :: "nat \<Rightarrow> char" where
  "digit_char d = ''0123456789'' ! d"

function decimal :: "nat \<Rightarrow> string" where
  "decimal n = (if n < 10 then [digit_char n] else decimal (n div 10) @ [digit_char (n mod 10)])"
  by pat_completeness auto
termination
  by (relation "measure id") auto

definition printable_integer :: "rat \<Rightarrow> bool" where
  "printable_integer q = (q = of_int \<lfloor>q\<rfloor> \<and> \<bar>q\<bar> < 10 ^ 21)"

definition NumberToString :: "runtime \<Rightarrow> jsnum \<Rightarrow> string" where
  "NumberToString rt n =
     (case n of
        NaN \<Rightarrow> ''NaN''
      | PosInf \<Rightarrow> ''Infinity''
      | NegInf \<Rightarrow> ''-Infinity''
      | Fin q \<Rightarrow>
          if printable_integer q
          then (if q < 0 then ''-'' @ decimal (nat (- \<lfloor>q\<rfloor>)) else decimal (nat \<lfloor>q\<rfloor>))
          else FractionToString rt q)"

fun join_commas :: "string list \<Rightarrow> string" where
  "join_commas [] = []"
| "join_commas [s] = s"
| "join_commas (s # t # ss) = s @ '','' @ join_commas (t # ss)"

text \<open>
  \<open>String(v)\<close>, which is also the property key \<open>v\<close> stands for in \<open>table[v]\<close>. An array
  prints its elements joined by commas, \<open>undefined\<close> and \<open>null\<close> elements as the empty
  string, and throws where an element does. An object parsed from JSON prints as
  \<open>[object Object]\<close> through the inherited \<open>toString\<close>; when it has an own property
  named \<open>toString\<close>, that value is not callable, the inherited \<open>valueOf\<close> returns the
  object itself, and the conversion throws a \<open>TypeError\<close>.
\<close>

fun ToString :: "runtime \<Rightarrow> jsval \<Rightarrow> error + string" where
  "ToString rt JUndefined = Inr ''undefined''"
| "ToString rt JNull = Inr ''null''"
| "ToString rt (JBool b) = Inr (if b then ''true'' else ''false'')"
| "ToString rt (JNum n) = Inr (NumberToString rt n)"
| "ToString rt (JStr s) = Inr s"
| "ToString rt (JArr xs) =
     bindE (sequenceE (map (\<lambda>x. if nullish x then Inr [] else ToString rt x) xs))
           (\<lambda>ss. Inr (join_commas ss))"
| "ToString rt (JObj kvs) =
     (if map_of kvs ''toString'' = None then Inr ''[object Object]'' else Inl TypeError)"

text \<open>\<open>Number(s)\<close> on a string: the empty string is 0, any other text is parsed.\<close>

definition NumberOfString :: "runtime \<Rightarrow> string \<Rightarrow> jsnum" where
  "NumberOfString rt s = (if s = [] then Fin 0 else StringToNumber rt s)"

text \<open>
  \<open>Number(v)\<close>: arrays and objects are first converted to their string, which is where
  the conversion can throw.
\<close>

fun ToNumber :: "runtime \<Rightarrow> jsval \<Rightarrow> error + jsnum" where
  "ToNumber rt JUndefined = Inr NaN"
| "ToNumber rt JNull = Inr (Fin 0)"
| "ToNumber rt (JBool b) = Inr (Fin (if b then 1 else 0))"
| "ToNumber rt (JNum n) = Inr n"
| "ToNumber rt (JStr s) = Inr (NumberOfString rt s)"
| "ToNumber rt (JArr xs) =
     bindE (ToString rt (JArr xs)) (\<lambda>s. Inr (NumberOfString rt s))"
| "ToNumber rt (JObj kvs) =
     bindE (ToString rt (JObj kvs)) (\<lambda>s. Inr (NumberOfString rt s))"

text \<open>
  The values these conversions accept: everything but an object with an own
  \<open>toString\<close> property, alone or as an element of an array.
\<close>

fun convertible :: "jsval \<Rightarrow> bool" where
  "convertible (JArr xs) = (\<forall>x \<in> set xs. convertible x)"
| "convertible (JObj kvs) = (map_of kvs ''toString'' = None)"
| "convertible v = True"

text \<open>
  What the language guarantees of the printing that is left as a parameter: the text of
  a number that is not an integer below \<open>10^21\<close> has a decimal point or an exponent.
\<close>

definition fraction_marked :: "runtime \<Rightarrow> bool" where
  "fraction_marked rt =
     (\<forall>q. \<not> printable_integer q \<longrightarrow>
        CHR ''.'' \<in> set (FractionToString rt q) \<or> CHR ''e'' \<in> set (FractionToString rt q))"

section \<open>The lookup tables\<close>

definition entry :: "string \<Rightarrow> string \<Rightarrow> jsval" where
  "entry l c = JObj [(''label'', JStr l), (''color'', JStr c)]"

definition milestoneColors :: jsval where
  "milestoneColors = JObj
     [(''0'', entry ''Unopened'' ''#BCCFB4''),
      (''1'', entry ''Milestone 1'' ''#69A761''),
      (''2'', entry ''Milestone 2'' ''#27823B''),
      (''3'', entry ''Milestone 3'' ''#09622A'')]"

definition geologicalColors :: jsval where
  "geologicalColors = JObj
     [(''MC'', entry ''Metamorphic complex'' ''#E63946''),
      (''GR'', entry ''Granite'' ''#F77F00''),
      (''SED'', entry ''Sedimentary'' ''#FCBF49''),
      (''VOL'', entry ''Volcanic'' ''#06A77D''),
      (''default'', entry ''Other'' ''#118AB2'')]"

section \<open>Feature classifier\<close>

definition getProps :: "jsval \<Rightarrow> error + jsval" where
  "getProps feature =
     bindE (optChain feature ''properties'') (\<lambda>p. Inr (or_else p (JObj [])))"

definition getClusterName :: "jsval \<Rightarrow> error + jsval" where
  "getClusterName feature =
     bindE (getProps feature) (\<lambda>props.
     bindE (getProp props ''Cluster'') (\<lambda>a.
     if truthy a then Inr a
     else bindE (getProp props '' cl name'') (\<lambda>b. Inr (or_else b (JStr ''Unknown'')))))"

definition getMilestone :: "runtime \<Rightarrow> jsval \<Rightarrow> error + jsnum" where
  "getMilestone rt feature =
     bindE (getProps feature) (\<lambda>props.
     bindE (getProp props ''Milestone'') (\<lambda>m.
     ToNumber rt (coalesce m (JNum (Fin 0)))))"

definition getLithCode :: "jsval \<Rightarrow> error + jsval" where
  "getLithCode feature =
     bindE (getProps feature) (\<lambda>props.
     bindE (getProp props ''LITHCODE'') (\<lambda>c. Inr (or_else c (JStr ''default''))))"

section \<open>Style resolver\<close>

record style =
  color :: jsval
  fillColor :: jsval
  weight :: jsval
  fillOpacity :: jsval

text \<open>The current component (\<open>src/components/map/Map.jsx\<close>).\<close>

definition geojsonColors :: "runtime \<Rightarrow> jsval \<Rightarrow> error + style" where
  "geojsonColors rt feature =
     bindE (getMilestone rt feature) (\<lambda>milestone.
     bindE (getProp milestoneColors (NumberToString rt milestone)) (\<lambda>e.
     bindE (optChain e ''color'') (\<lambda>c.
     Inr \<lparr>color = JStr ''#000'',
          fillColor = or_else c (JStr ''#374151''),
          weight = JNum (Fin 2),
          fillOpacity = JNum (Fin (7 / 10))\<rparr>)))"

definition geologicalLayerColors :: "runtime \<Rightarrow> jsval \<Rightarrow> error + style" where
  "geologicalLayerColors rt feature =
     bindE (getLithCode feature) (\<lambda>lithCode.
     bindE (ToString rt lithCode) (\<lambda>key.
     bindE (getProp geologicalColors key) (\<lambda>e.
     bindE (optChain e ''color'') (\<lambda>c.
     bindE (getProp geologicalColors ''default'') (\<lambda>d.
     bindE (getProp d ''color'') (\<lambda>dc.
     Inr \<lparr>color = JStr ''#000'',
          fillColor = or_else c dc,
          weight = JNum (Fin 2),
          fillOpacity = JNum (Fin (7 / 10))\<rparr>))))))"

text \<open>The label shown in the tooltip of \<open>onEachFeature\<close>.\<close>

definition milestoneLabel :: "runtime \<Rightarrow> jsval \<Rightarrow> error + jsval" where
  "milestoneLabel rt feature =
     bindE (getMilestone rt feature) (\<lambda>milestone.
     bindE (getProp milestoneColors (NumberToString rt milestone)) (\<lambda>e.
     bindE (optChain e ''label'') (\<lambda>l. Inr (or_else l (JStr ''Unknown'')))))"

text \<open>
  The earlier, clusters-only version of the component (first file of
  \<open>unnamed/part_000\<close>) resolves the style differently.
\<close>

definition geojsonColors_earlier :: "runtime \<Rightarrow> jsval \<Rightarrow> error + style" where
  "geojsonColors_earlier rt feature =
     bindE (getMilestone rt feature) (\<lambda>milestone.
     bindE (getProp milestoneColors (NumberToString rt milestone)) (\<lambda>e.
     bindE (optChain e ''color'') (\<lambda>c.
     Inr \<lparr>color = JStr ''#000'',
          fillColor = or_else c (JStr ''374151''),
          weight = JNum (Fin 2),
          fillOpacity = JNum (Fin 1)\<rparr>)))"

section \<open>A runtime for the worked examples\<close>

text \<open>
  The examples below are evaluated with this instance of the runtime parameters: it
  parses the string \<open>"2"\<close> as the number 2 and every other non-empty string as \<open>NaN\<close>,
  and prints every number that is not an integer as \<open>0.5\<close>.
\<close>

definition sample_runtime :: runtime where
  "sample_runtime =
     \<lparr>StringToNumber = (\<lambda>s. if s = ''2'' then Fin 2 else NaN),
      FractionToString = (\<lambda>q. ''0.5'')\<rparr>"

section \<open>Coordinate reprojector\<close>

text \<open>
  \<open>proj4("EPSG:32733", "EPSG:4326", coords)\<close> is a call into the proj4 library, which is
  not part of the repository: the projection is a parameter. Given the elements of an
  array it returns the elements of a new array, or throws.
\<close>

type_synonym projection = "jsval list \<Rightarrow> error + jsval list"

text \<open>\<open>xs[i]\<close> on an array, \<open>undefined\<close> out of range.\<close>

definition elem :: "jsval list \<Rightarrow> nat \<Rightarrow> jsval" where
  "elem xs i = (if i < length xs then xs ! i else JUndefined)"

text \<open>\<open>typeof v === 'number'\<close>.\<close>

fun is_number :: "jsval \<Rightarrow> bool" where
  "is_number (JNum n) = True"
| "is_number v = False"

text \<open>
  \<open>transformCoordinates\<close>, with \<open>coords.map(transformCoordinates)\<close> as the second
  function. On an array whose first element is a number the projection is applied and
  the first two elements of its result are returned as a new pair; on any other array
  the function maps itself over the elements, stopping at the first one that throws.
  On a value that is not an array the call throws a \<open>TypeError\<close>: \<open>coords[0]\<close> throws
  on \<open>undefined\<close> and \<open>null\<close>; a string, number or boolean has no numeric \<open>[0]\<close> and no
  \<open>map\<close>; an object parsed from JSON has no callable \<open>map\<close>, and where its \<open>"0"\<close> is a
  number, proj4 either rejects it or returns a point object that the array
  destructuring cannot iterate.
\<close>

fun transformCoordinates :: "projection \<Rightarrow> jsval \<Rightarrow> error + jsval"
  and transformCoordinates_map :: "projection \<Rightarrow> jsval list \<Rightarrow> error + jsval list" where
  "transformCoordinates proj4 (JArr coords) =
     (if is_number (elem coords 0)
      then bindE (proj4 coords) (\<lambda>r. Inr (JArr [elem r 0, elem r 1]))
      else bindE (transformCoordinates_map proj4 coords) (\<lambda>ys. Inr (JArr ys)))"
| "transformCoordinates proj4 v = Inl TypeError"
| "transformCoordinates_map proj4 [] = Inr []"
| "transformCoordinates_map proj4 (c # cs) =
     bindE (transformCoordinates proj4 c) (\<lambda>y.
     bindE (transformCoordinates_map proj4 cs) (\<lambda>ys. Inr (y # ys)))"

subsection \<open>Valid coordinate structures and the expected result\<close>

text \<open>
  The specification's side: a leaf is a pair of two finite numbers, a valid structure is
  a leaf or an array of valid structures; the expected result replaces every leaf by
  its image and keeps everything else in place; the shape of a value is its nesting of
  arrays.
\<close>

fun pair_of :: "jsval \<Rightarrow> (rat \<times> rat) option" where
  "pair_of (JArr [JNum (Fin x), JNum (Fin y)]) = Some (x, y)"
| "pair_of v = None"

fun valid_coords :: "jsval \<Rightarrow> bool" where
  "valid_coords (JArr cs) = (pair_of (JArr cs) \<noteq> None \<or> (\<forall>c \<in> set cs. valid_coords c))"
| "valid_coords v = False"

fun map_leaves :: "(rat \<Rightarrow> rat \<Rightarrow> jsval) \<Rightarrow> jsval \<Rightarrow> jsval" where
  "map_leaves g (JArr cs) =
     (case pair_of (JArr cs) of Some (x, y) \<Rightarrow> g x y | None \<Rightarrow> JArr (map (map_leaves g) cs))"
| "map_leaves g v = v"

datatype shape = Atom | Nest "shape list"

fun shape_of :: "jsval \<Rightarrow> shape" where
  "shape_of (JArr cs) = Nest (map shape_of cs)"
| "shape_of v = Atom"

text \<open>
  A projection for the worked examples: it shifts a pair of finite numbers by the false
  easting and false northing of the southern UTM zones and rejects everything else.
\<close>

definition sample_projection :: projection where
  "sample_projection cs =
     (case pair_of (JArr cs) of
        Some (x, y) \<Rightarrow> Inr [JNum (Fin (x - 500000)), JNum (Fin (y - 10000000))]
      | None \<Rightarrow> Inl TypeError)"

section \<open>Legend builder\<close>

text \<open>
  The legend effect runs inside React and Leaflet, which are not part of the
  repository. What the effect relies on is modelled as state: the \<open>activeLayer\<close> state
  variable, whether \<open>mapRef.current\<close> holds the map, the controls attached to the map
  (each with the identity of its control object and the box its \<open>onAdd\<close> built), the
  control that the pending cleanup function removes, and the next fresh identity.
\<close>

record legend_box =
  title :: string
  rows :: "(jsval \<times> jsval) list"

record ui =
  activeLayer :: string
  mapRef :: bool
  controls :: "(nat \<times> legend_box) list"
  cleanup :: "nat option"
  next_control :: nat

text \<open>
  \<open>Object.values(table)\<close>: the own values in key order. Both tables list their keys in
  the order JavaScript enumerates them (ascending integer keys; other keys in insertion
  order).
\<close>

fun Object_values :: "jsval \<Rightarrow> jsval list" where
  "Object_values (JObj kvs) = map snd kvs"
| "Object_values v = []"

text \<open>\<open>m.k\<close> for an element \<open>m\<close> of \<open>Object.values\<close> of a table, which is never nullish.\<close>

fun field :: "jsval \<Rightarrow> string \<Rightarrow> jsval" where
  "field (JObj kvs) k = (case map_of kvs k of None \<Rightarrow> JUndefined | Some v \<Rightarrow> v)"
| "field v k = JUndefined"

text \<open>
  \<open>legend.onAdd\<close>: the heading and, for each table value, the colour of the swatch and
  the label next to it. The markup of the box is not modelled.
\<close>

definition onAdd :: "string \<Rightarrow> legend_box" where
  "onAdd layer =
     (if layer = ''clusters''
      then \<lparr>title = ''Milestones'',
            rows = map (\<lambda>m. (field m ''color'', field m ''label'')) (Object_values milestoneColors)\<rparr>
      else \<lparr>title = ''Geology'',
            rows = map (\<lambda>g. (field g ''color'', field g ''label'')) (Object_values geologicalColors)\<rparr>)"

text \<open>
  The effect body: without a map it returns no cleanup; otherwise it creates a control,
  attaches it (\<open>addTo\<close> builds the box with \<open>onAdd\<close>) and returns the cleanup that removes
  this control.
\<close>

definition legend_effect :: "ui \<Rightarrow> ui" where
  "legend_effect s =
     (if \<not> mapRef s then s\<lparr>cleanup := None\<rparr>
      else s\<lparr>controls := controls s @ [(next_control s, onAdd (activeLayer s))],
             cleanup := Some (next_control s),
             next_control := Suc (next_control s)\<rparr>)"






text \<open>
  Mounting: the initial state \<open>"clusters"\<close> and the first run of the effect. The map
  container fills \<open>mapRef\<close> when it has mounted itself, so this first run can find no
  map (\<open>mount False\<close>).
\<close>

definition mount :: "bool \<Rightarrow> ui" where
  "mount map_ready =
     legend_effect \<lparr>activeLayer = ''clusters'', mapRef = map_ready, controls = [],
                   cleanup = None, next_control = 0\<rparr>"





section \<open>The store of arrays and objects\<close>

text \<open>
  \<open>transformGeoJSON\<close> assigns to a property of an object, so whether its argument is
  changed depends on which objects are shared. Arrays and objects live in a store,
  addressed by their position; a value is a primitive or a reference into the store.
  Allocation appends a cell.
\<close>

type_synonym addr = nat

datatype hval = HUndefined | HNull | HBool bool | HNum jsnum | HStr string | HRef addr

datatype cell = ArrayCell "hval list" | ObjectCell "(string \<times> hval) list"

type_synonym heap = "cell list"

fun htruthy :: "hval \<Rightarrow> bool" where
  "htruthy HUndefined = False"
| "htruthy HNull = False"
| "htruthy (HBool b) = b"
| "htruthy (HNum n) = (n \<noteq> NaN \<and> n \<noteq> Fin 0)"
| "htruthy (HStr s) = (s \<noteq> [])"
| "htruthy (HRef a) = True"

text \<open>
  Reading a named property \<open>o.k\<close> through the store, as \<open>getProp\<close> does on a tree: it
  throws on \<open>undefined\<close> and \<open>null\<close>, yields the own property of an object, and
  \<open>undefined\<close> on arrays and primitives for the names read here (\<open>features\<close>,
  \<open>geometry\<close>, \<open>coordinates\<close>). A reference outside the store cannot occur in a running
  program; the model treats it as a throw.
\<close>

fun hget :: "heap \<Rightarrow> hval \<Rightarrow> string \<Rightarrow> error + hval" where
  "hget h HUndefined k = Inl TypeError"
| "hget h HNull k = Inl TypeError"
| "hget h (HRef a) k =
     (if length h \<le> a then Inl TypeError
      else case h ! a of
             ObjectCell kvs \<Rightarrow> Inr (case map_of kvs k of None \<Rightarrow> HUndefined | Some v \<Rightarrow> v)
           | ArrayCell vs \<Rightarrow> Inr HUndefined)"
| "hget h v k = Inr HUndefined"

text \<open>The assignment \<open>o.k = v\<close> on an object of the store.\<close>

fun set_prop :: "string \<Rightarrow> hval \<Rightarrow> (string \<times> hval) list \<Rightarrow> (string \<times> hval) list" where
  "set_prop k v [] = [(k, v)]"
| "set_prop k v (p # ps) = (if fst p = k then (k, v) # ps else p # set_prop k v ps)"

fun hset :: "heap \<Rightarrow> hval \<Rightarrow> string \<Rightarrow> hval \<Rightarrow> heap" where
  "hset h (HRef a) k v =
     (if length h \<le> a then h
      else case h ! a of
             ObjectCell kvs \<Rightarrow> h[a := ObjectCell (set_prop k v kvs)]
           | ArrayCell vs \<Rightarrow> h)"
| "hset h w k v = h"

text \<open>The elements \<open>forEach\<close> visits; anything but an array has no \<open>forEach\<close> to call.\<close>

fun array_elements :: "heap \<Rightarrow> hval \<Rightarrow> error + hval list" where
  "array_elements h (HRef a) =
     (if length h \<le> a then Inl TypeError
      else case h ! a of ArrayCell vs \<Rightarrow> Inr vs | ObjectCell kvs \<Rightarrow> Inl TypeError)"
| "array_elements h v = Inl TypeError"

text \<open>
  The tree a value stands for: what a recursive walk from it reads. The walk keeps the
  addresses it is inside of, as \<open>JSON.stringify\<close> does, and throws on a cycle.
\<close>

function snapshot :: "heap \<Rightarrow> addr list \<Rightarrow> hval \<Rightarrow> error + jsval" where
  "snapshot h st HUndefined = Inr JUndefined"
| "snapshot h st HNull = Inr JNull"
| "snapshot h st (HBool b) = Inr (JBool b)"
| "snapshot h st (HNum n) = Inr (JNum n)"
| "snapshot h st (HStr s) = Inr (JStr s)"
| "snapshot h st (HRef a) =
     (if a \<in> set st \<or> length h \<le> a then Inl TypeError
      else case h ! a of
             ArrayCell vs \<Rightarrow>
               bindE (sequenceE (map (snapshot h (a # st)) vs)) (\<lambda>xs. Inr (JArr xs))
           | ObjectCell kvs \<Rightarrow>
               bindE (sequenceE (map (\<lambda>p. bindE (snapshot h (a # st) (snd p))
                                             (\<lambda>x. Inr (fst p, x))) kvs))
                     (\<lambda>ps. Inr (JObj ps)))"
  by pat_completeness auto
termination
proof (relation "measure (\<lambda>(h, st, v). card ({..<length h} - set st))", goal_cases)
  case 1
  show ?case by simp
next
  have less: "card ({..<length h} - set (a # st)) < card ({..<length h} - set st)"
    if "\<not> (a \<in> set st \<or> length h \<le> a)" for a st and h :: heap
  proof -
    have "a \<in> {..<length h} - set st" using that by simp
    moreover have "{..<length h} - set (a # st) = ({..<length h} - set st) - {a}" by auto
    moreover have "finite ({..<length h} - set st)" by simp
    ultimately show ?thesis by (metis card_Diff1_less)
  qed
  {
    case (2 h st a vs x)
    then show ?case using less[of a st h] by simp
  next
    case (3 h st a kvs x)
    then show ?case using less[of a st h] by simp
  }
qed

text \<open>
  \<open>JSON.parse(JSON.stringify(v))\<close> on the tree of \<open>v\<close>. \<open>stringify\<close> writes \<open>null\<close> for a
  number that is not finite and for \<open>undefined\<close> in an array, and leaves out a property
  whose value is \<open>undefined\<close>; of \<open>undefined\<close> itself it returns \<open>undefined\<close>, which
  \<open>parse\<close> rejects. The text in between carries the tree unchanged.
\<close>

fun json_value :: "jsval \<Rightarrow> jsval" where
  "json_value (JNum n) = (case n of Fin q \<Rightarrow> JNum (Fin q) | _ \<Rightarrow> JNull)"
| "json_value (JArr xs) = JArr (map (\<lambda>x. if x = JUndefined then JNull else json_value x) xs)"
| "json_value (JObj kvs) =
     JObj (map (\<lambda>p. (fst p, json_value (snd p))) (filter (\<lambda>p. snd p \<noteq> JUndefined) kvs))"
| "json_value v = v"

definition json_roundtrip :: "jsval \<Rightarrow> error + jsval" where
  "json_roundtrip v = (if v = JUndefined then Inl SyntaxError else Inr (json_value v))"

text \<open>Building a tree in the store: every array and object gets a new cell.\<close>

fun alloc :: "heap \<Rightarrow> jsval \<Rightarrow> heap \<times> hval"
  and alloc_list :: "heap \<Rightarrow> jsval list \<Rightarrow> heap \<times> hval list"
  and alloc_props :: "heap \<Rightarrow> (string \<times> jsval) list \<Rightarrow> heap \<times> (string \<times> hval) list" where
  "alloc h JUndefined = (h, HUndefined)"
| "alloc h JNull = (h, HNull)"
| "alloc h (JBool b) = (h, HBool b)"
| "alloc h (JNum n) = (h, HNum n)"
| "alloc h (JStr s) = (h, HStr s)"
| "alloc h (JArr xs) = (case alloc_list h xs of (h1, vs) \<Rightarrow> (h1 @ [ArrayCell vs], HRef (length h1)))"
| "alloc h (JObj kvs) = (case alloc_props h kvs of (h1, ps) \<Rightarrow> (h1 @ [ObjectCell ps], HRef (length h1)))"
| "alloc_list h [] = (h, [])"
| "alloc_list h (x # xs) =
     (case alloc h x of (h1, v) \<Rightarrow> case alloc_list h1 xs of (h2, vs) \<Rightarrow> (h2, v # vs))"
| "alloc_props h [] = (h, [])"
| "alloc_props h (p # ps) =
     (case alloc h (snd p) of (h1, v) \<Rightarrow>
        case alloc_props h1 ps of (h2, qs) \<Rightarrow> (h2, (fst p, v) # qs))"

section \<open>Transforming a GeoJSON document\<close>

text \<open>
  The body of the \<open>forEach\<close> callback. First the reads: \<open>feature.geometry\<close>, the guard
  \<open>feature.geometry && feature.geometry.coordinates\<close>, and the call of
  \<open>transformCoordinates\<close> on the tree of the coordinates, which only reads its argument.
  Then the writes: the result is built from new arrays and assigned to
  \<open>feature.geometry.coordinates\<close>. A throw leaves the store as it is.
\<close>

definition new_coordinates :: "projection \<Rightarrow> heap \<Rightarrow> hval \<Rightarrow> error + (hval \<times> jsval) option" where
  "new_coordinates proj4 h feature =
     bindE (hget h feature ''geometry'') (\<lambda>geometry.
     if \<not> htruthy geometry then Inr None
     else bindE (hget h geometry ''coordinates'') (\<lambda>coordinates.
          if \<not> htruthy coordinates then Inr None
          else bindE (snapshot h [] coordinates) (\<lambda>coords.
               bindE (transformCoordinates proj4 coords) (\<lambda>r. Inr (Some (geometry, r))))))"

definition transform_feature :: "projection \<Rightarrow> heap \<Rightarrow> hval \<Rightarrow> heap \<times> (error + unit)" where
  "transform_feature proj4 h feature =
     (case new_coordinates proj4 h feature of
        Inl e \<Rightarrow> (h, Inl e)
      | Inr None \<Rightarrow> (h, Inr ())
      | Inr (Some (geometry, r)) \<Rightarrow>
          (case alloc h r of (h1, v) \<Rightarrow> (hset h1 geometry ''coordinates'' v, Inr ())))"

text \<open>
  \<open>features.forEach\<close>: the callback on each element in order, until one throws. The
  callback assigns to objects only, so the array it walks keeps its elements.
\<close>

fun transform_features :: "projection \<Rightarrow> heap \<Rightarrow> hval list \<Rightarrow> heap \<times> (error + unit)" where
  "transform_features proj4 h [] = (h, Inr ())"
| "transform_features proj4 h (feature # fs) =
     (case transform_feature proj4 h feature of
        (h1, Inl e) \<Rightarrow> (h1, Inl e)
      | (h1, Inr u) \<Rightarrow> transform_features proj4 h1 fs)"

text \<open>
  \<open>transformGeoJSON\<close>: the deep clone, then the loop over \<open>transformed.features\<close> when
  that is truthy. The result is the store after the call and the returned value or the
  error thrown.
\<close>

definition transformGeoJSON :: "projection \<Rightarrow> heap \<Rightarrow> hval \<Rightarrow> heap \<times> (error + hval)" where
  "transformGeoJSON proj4 h geojson =
     (case bindE (snapshot h [] geojson) json_roundtrip of
        Inl e \<Rightarrow> (h, Inl e)
      | Inr doc \<Rightarrow>
          (case alloc h doc of (h1, transformed) \<Rightarrow>
             (case hget h1 transformed ''features'' of
                Inl e \<Rightarrow> (h1, Inl e)
              | Inr features \<Rightarrow>
                  if htruthy features
                  then (case array_elements h1 features of
                          Inl e \<Rightarrow> (h1, Inl e)
                        | Inr fs \<Rightarrow>
                            (case transform_features proj4 h1 fs of
                               (h2, Inl e) \<Rightarrow> (h2, Inl e)
                             | (h2, Inr u) \<Rightarrow> (h2, Inr transformed)))
                  else (h1, Inr transformed))))"

text \<open>
  The same function without the clone, \<open>const transformed = geojson\<close>, to compare with.
\<close>

definition transformGeoJSON_in_place :: "projection \<Rightarrow> heap \<Rightarrow> hval \<Rightarrow> heap \<times> (error + hval)" where
  "transformGeoJSON_in_place proj4 h geojson =
     (case hget h geojson ''features'' of
        Inl e \<Rightarrow> (h, Inl e)
      | Inr features \<Rightarrow>
          if htruthy features
          then (case array_elements h features of
                  Inl e \<Rightarrow> (h, Inl e)
                | Inr fs \<Rightarrow>
                    (case transform_features proj4 h fs of
                       (h2, Inl e) \<Rightarrow> (h2, Inl e)
                     | (h2, Inr u) \<Rightarrow> (h2, Inr geojson)))
          else (h, Inr geojson))"

subsection \<open>Invariants of the store\<close>

text \<open>
  A value is fresh from \<open>n\<close> when it is not a reference below \<open>n\<close>. The store is closed
  from \<open>n\<close> when the cells from \<open>n\<close> on hold fresh values only: nothing reachable from
  a new cell is an old cell.
\<close>

fun fresh :: "nat \<Rightarrow> hval \<Rightarrow> bool" where
  "fresh n (HRef a) = (n \<le> a)"
| "fresh n v = True"

fun cell_values :: "cell \<Rightarrow> hval list" where
  "cell_values (ArrayCell vs) = vs"
| "cell_values (ObjectCell kvs) = map snd kvs"

definition closed_from :: "nat \<Rightarrow> heap \<Rightarrow> bool" where
  "closed_from n h =
     (\<forall>a. n \<le> a \<and> a < length h \<longrightarrow> (\<forall>v \<in> set (cell_values (h ! a)). fresh n v))"

text \<open>
  A store for the worked example: the document
  \<open>{features: [{geometry: {coordinates: [500000, 7500000]}}]}\<close> at address 4.
\<close>

definition sample_heap :: heap where
  "sample_heap =
     [ArrayCell [HNum (Fin 500000), HNum (Fin 7500000)],
      ObjectCell [(''coordinates'', HRef 0)],
      ObjectCell [(''geometry'', HRef 1)],
      ArrayCell [HRef 2],
      ObjectCell [(''features'', HRef 3)]]"

text \<open>
  A store is well formed when every reference in it is an address of the store, as in
  a running program.
\<close>

fun valid_val :: "heap \<Rightarrow> hval \<Rightarrow> bool" where
  "valid_val h (HRef a) = (a < length h)"
| "valid_val h v = True"

definition wf_heap :: "heap \<Rightarrow> bool" where
  "wf_heap h = list_all (\<lambda>c. list_all (valid_val h) (cell_values c)) h"

section \<open>Properties of the classifier and the style resolver\<close>

lemma bindE_simps: "bindE (Inl e) f = Inl e" "bindE (Inr x) f = f x"
  by (simp_all add: bindE_def)

lemma decimal_small: "n < 10 \<Longrightarrow> decimal n = [digit_char n]"
  by (subst decimal.simps) simp

lemma NumberToString_2: "NumberToString rt (Fin 2) = ''2''"
  by (simp add: NumberToString_def printable_integer_def decimal_small digit_char_def)

text \<open>
  Claim C6. The property bag \<open>{Milestone: 2}\<close> classifies as milestone 2, its style has
  the fill colour \<open>#27823B\<close> and its label is \<open>Milestone 2\<close>; the property bag
  \<open>{LITHCODE: "XYZ"}\<close>, whose code is in no table row, gets the fill colour \<open>#118AB2\<close>,
  which is the colour of the table's \<open>default\<close> row.
\<close>

theorem examples_milestone_2_and_unknown_lithcode:
  "getMilestone rt (JObj [(''properties'', JObj [(''Milestone'', JNum (Fin 2))])]) = Inr (Fin 2)
   \<and> map_sum id fillColor
       (geojsonColors rt (JObj [(''properties'', JObj [(''Milestone'', JNum (Fin 2))])]))
     = Inr (JStr ''#27823B'')
   \<and> milestoneLabel rt (JObj [(''properties'', JObj [(''Milestone'', JNum (Fin 2))])])
     = Inr (JStr ''Milestone 2'')
   \<and> getLithCode (JObj [(''properties'', JObj [(''LITHCODE'', JStr ''XYZ'')])])
     = Inr (JStr ''XYZ'')
   \<and> map_sum id fillColor
       (geologicalLayerColors rt (JObj [(''properties'', JObj [(''LITHCODE'', JStr ''XYZ'')])]))
     = Inr (JStr ''#118AB2'')
   \<and> bindE (getProp geologicalColors ''default'') (\<lambda>d. getProp d ''color'')
     = Inr (JStr ''#118AB2'')"
  by (simp add: getMilestone_def geojsonColors_def milestoneLabel_def getLithCode_def
      geologicalLayerColors_def getProps_def optChain_def or_else_def coalesce_def bindE_def
      milestoneColors_def geologicalColors_def entry_def NumberToString_2)

subsection \<open>Where the classifiers return and where they throw\<close>

lemma getProp_truthy: "truthy p \<Longrightarrow> \<exists>v. getProp p k = Inr v"
  by (cases p) auto

lemma getProps_total: "\<exists>p. getProps f = Inr p \<and> truthy p"
  by (cases f) (auto simp: getProps_def optChain_def or_else_def bindE_def split: option.splits)

lemma getClusterName_total: "\<exists>v. getClusterName f = Inr v"
proof -
  obtain p where p: "getProps f = Inr p" "truthy p" using getProps_total by blast
  obtain a where a: "getProp p ''Cluster'' = Inr a" using getProp_truthy[OF p(2)] by blast
  obtain b where b: "getProp p '' cl name'' = Inr b" using getProp_truthy[OF p(2)] by blast
  show ?thesis by (simp add: getClusterName_def p a b bindE_simps)
qed

lemma getLithCode_total: "\<exists>v. getLithCode f = Inr v \<and> truthy v"
proof -
  obtain p where p: "getProps f = Inr p" "truthy p" using getProps_total by blast
  obtain a where a: "getProp p ''LITHCODE'' = Inr a" using getProp_truthy[OF p(2)] by blast
  show ?thesis by (simp add: getLithCode_def p a bindE_simps or_else_def)
qed

lemma bag_reads:
  "\<exists>props mv lv. getProps f = Inr props \<and> getProp props ''Milestone'' = Inr mv
     \<and> getProp props ''LITHCODE'' = Inr lv"
proof -
  obtain p where p: "getProps f = Inr p" "truthy p" using getProps_total by blast
  then show ?thesis using getProp_truthy[OF p(2)] by blast
qed

lemma sequenceE_all_Inr:
  "\<forall>r \<in> set rs. \<exists>x. r = Inr x \<Longrightarrow> \<exists>xs. sequenceE rs = Inr xs"
proof (induction rs)
  case Nil
  then show ?case by simp
next
  case (Cons r rs)
  then obtain x xs where "r = Inr x" "sequenceE rs = Inr xs" by auto
  then show ?case by (simp add: bindE_simps)
qed

lemma sequenceE_error:
  "\<forall>r \<in> set rs. (\<exists>x. r = Inr x) \<or> r = Inl e \<Longrightarrow> \<exists>r \<in> set rs. r = Inl e
   \<Longrightarrow> sequenceE rs = Inl e"
proof (induction rs)
  case Nil
  then show ?case by simp
next
  case (Cons r rs)
  show ?case
  proof (cases r)
    case (Inl e')
    then show ?thesis using Cons.prems(1) by (simp add: bindE_simps)
  next
    case (Inr x)
    then have "\<exists>r \<in> set rs. r = Inl e" using Cons.prems(2) by auto
    then have "sequenceE rs = Inl e" using Cons.IH Cons.prems(1) by simp
    then show ?thesis using Inr by (simp add: bindE_simps)
  qed
qed

lemma nullish_convertible: "nullish x \<Longrightarrow> convertible x"
  by (cases x) simp_all

lemma ToString_convertible:
  "(convertible v \<longrightarrow> (\<exists>s. ToString rt v = Inr s))
   \<and> (\<not> convertible v \<longrightarrow> ToString rt v = Inl TypeError)"
proof (induction rt v rule: ToString.induct)
  case (6 rt xs)
  let ?rs = "map (\<lambda>x. if nullish x then Inr [] else ToString rt x) xs"
  have each: "\<forall>r \<in> set ?rs. (\<exists>s. r = Inr s) \<or> r = Inl TypeError"
  proof
    fix r assume "r \<in> set ?rs"
    then obtain x where x: "x \<in> set xs" "r = (if nullish x then Inr [] else ToString rt x)"
      by auto
    show "(\<exists>s. r = Inr s) \<or> r = Inl TypeError"
    proof (cases "nullish x")
      case True
      then show ?thesis using x by simp
    next
      case False
      then show ?thesis using "6.IH"[OF x(1) False] x(2) by (cases "convertible x") auto
    qed
  qed
  show ?case
  proof (cases "\<forall>x \<in> set xs. convertible x")
    case True
    have "\<forall>r \<in> set ?rs. \<exists>s. r = Inr s"
    proof
      fix r assume "r \<in> set ?rs"
      then obtain x where x: "x \<in> set xs" "r = (if nullish x then Inr [] else ToString rt x)"
        by auto
      show "\<exists>s. r = Inr s"
      proof (cases "nullish x")
        case True
        then show ?thesis using x by simp
      next
        case False
        then show ?thesis using "6.IH"[OF x(1) False] x True by auto
      qed
    qed
    then obtain ss where "sequenceE ?rs = Inr ss" using sequenceE_all_Inr by blast
    then show ?thesis using True by (simp add: bindE_simps)
  next
    case False
    then obtain x where x: "x \<in> set xs" "\<not> convertible x" by blast
    then have nn: "\<not> nullish x" using nullish_convertible by blast
    then have "ToString rt x = Inl TypeError" using "6.IH"[OF x(1) nn] x(2) by simp
    then have "(if nullish x then Inr [] else ToString rt x) = Inl TypeError" using nn by simp
    moreover have "(if nullish x then Inr [] else ToString rt x) \<in> set ?rs"
      using x(1) by simp
    ultimately have "\<exists>r \<in> set ?rs. r = Inl TypeError" by metis
    then have "sequenceE ?rs = Inl TypeError" using sequenceE_error[OF each] by blast
    then show ?thesis using False by (simp add: bindE_simps)
  qed
qed simp_all

lemma ToNumber_convertible:
  "(convertible v \<longrightarrow> (\<exists>n. ToNumber rt v = Inr n))
   \<and> (\<not> convertible v \<longrightarrow> ToNumber rt v = Inl TypeError)"
proof (cases v)
  case (JArr xs)
  then show ?thesis using ToString_convertible[of v rt] by (auto simp: bindE_simps)
next
  case (JObj kvs)
  then show ?thesis using ToString_convertible[of v rt] by (auto simp: bindE_simps)
qed simp_all

lemma coalesce_convertible: "convertible (coalesce mv (JNum (Fin 0))) = convertible mv"
  by (cases mv) (simp_all add: coalesce_def)

lemma getMilestone_reads:
  "getProps f = Inr props \<Longrightarrow> getProp props ''Milestone'' = Inr mv
   \<Longrightarrow> getMilestone rt f = ToNumber rt (coalesce mv (JNum (Fin 0)))"
  by (simp add: getMilestone_def bindE_simps)

lemma getLithCode_reads:
  "getProps f = Inr props \<Longrightarrow> getProp props ''LITHCODE'' = Inr lv
   \<Longrightarrow> getLithCode f = Inr (or_else lv (JStr ''default''))"
  by (simp add: getLithCode_def bindE_simps)

lemma or_else_default_convertible:
  "convertible (or_else lv (JStr ''default'')) = convertible lv"
  by (cases lv) (simp_all add: or_else_def)

subsection \<open>Table lookups\<close>

lemma decimal_nonempty: "decimal n \<noteq> []"
  by (subst decimal.simps) simp

lemma decimal_key: "decimal n \<in> {''0'', ''1'', ''2'', ''3''} \<longleftrightarrow> n < 4"
proof (cases "n < 10")
  case True
  then have "n \<in> {0,1,2,3,4,5,6,7,8,9}" by auto
  then show ?thesis using True by (auto simp: decimal_small digit_char_def)
next
  case False
  then have "decimal n = decimal (n div 10) @ [digit_char (n mod 10)]"
    by (subst decimal.simps) simp
  then have "length (decimal n) \<ge> 2" using decimal_nonempty[of "n div 10"]
    by (cases "decimal (n div 10)") auto
  then show ?thesis using False by auto
qed

lemma milestone_lookup:
  "getProp milestoneColors k =
     Inr (if k = ''0'' then entry ''Unopened'' ''#BCCFB4''
          else if k = ''1'' then entry ''Milestone 1'' ''#69A761''
          else if k = ''2'' then entry ''Milestone 2'' ''#27823B''
          else if k = ''3'' then entry ''Milestone 3'' ''#09622A''
          else JUndefined)"
  by (simp add: milestoneColors_def)

lemma geological_lookup:
  "getProp geologicalColors k =
     Inr (if k = ''MC'' then entry ''Metamorphic complex'' ''#E63946''
          else if k = ''GR'' then entry ''Granite'' ''#F77F00''
          else if k = ''SED'' then entry ''Sedimentary'' ''#FCBF49''
          else if k = ''VOL'' then entry ''Volcanic'' ''#06A77D''
          else if k = ''default'' then entry ''Other'' ''#118AB2''
          else JUndefined)"
  by (simp add: geologicalColors_def)

lemma entry_color: "optChain (entry l c) ''color'' = Inr (JStr c)"
  "getProp (entry l c) ''color'' = Inr (JStr c)"
  "optChain (entry l c) ''label'' = Inr (JStr l)"
  "optChain JUndefined k = Inr JUndefined"
  by (simp_all add: optChain_def entry_def)

lemma geojsonColors_fill:
  assumes "getMilestone rt f = Inr m"
  shows "geojsonColors rt f =
     Inr \<lparr>color = JStr ''#000'',
          fillColor = JStr (let k = NumberToString rt m in
             if k = ''0'' then ''#BCCFB4'' else if k = ''1'' then ''#69A761''
             else if k = ''2'' then ''#27823B'' else if k = ''3'' then ''#09622A''
             else ''#374151''),
          weight = JNum (Fin 2), fillOpacity = JNum (Fin (7 / 10))\<rparr>"
  by (simp add: geojsonColors_def assms bindE_simps milestone_lookup entry_color or_else_def Let_def)

lemma geojsonColors_throws:
  "getMilestone rt f = Inl e \<Longrightarrow> geojsonColors rt f = Inl e"
  "getMilestone rt f = Inl e \<Longrightarrow> geojsonColors_earlier rt f = Inl e"
  by (simp_all add: geojsonColors_def geojsonColors_earlier_def bindE_simps)

lemma geojsonColors_earlier_fill:
  assumes "getMilestone rt f = Inr m"
  shows "\<exists>c. geojsonColors_earlier rt f =
        Inr \<lparr>color = JStr ''#000'', fillColor = c, weight = JNum (Fin 2),
             fillOpacity = JNum (Fin 1)\<rparr>"
  by (simp add: geojsonColors_earlier_def assms bindE_simps milestone_lookup entry_color)

lemma geologicalLayerColors_fill:
  assumes "getLithCode f = Inr l" "ToString rt l = Inr k"
  shows "geologicalLayerColors rt f =
     Inr \<lparr>color = JStr ''#000'',
          fillColor = JStr (
             if k = ''MC'' then ''#E63946'' else if k = ''GR'' then ''#F77F00''
             else if k = ''SED'' then ''#FCBF49'' else if k = ''VOL'' then ''#06A77D''
             else ''#118AB2''),
          weight = JNum (Fin 2), fillOpacity = JNum (Fin (7 / 10))\<rparr>"
  by (simp add: geologicalLayerColors_def assms bindE_simps geological_lookup entry_color or_else_def)

lemma geologicalLayerColors_throws:
  "getLithCode f = Inr l \<Longrightarrow> ToString rt l = Inl e \<Longrightarrow> geologicalLayerColors rt f = Inl e"
  by (simp add: geologicalLayerColors_def bindE_simps)

lemma NumberToString_int_key:
  assumes "\<bar>i\<bar> < 10 ^ 21"
  shows "NumberToString rt (Fin (of_int i)) \<in> {''0'', ''1'', ''2'', ''3''} \<longleftrightarrow> i \<in> {0, 1, 2, 3}"
proof -
  have b: "\<bar>(of_int i :: rat)\<bar> < 10 ^ 21"
    using assms by (metis of_int_abs of_int_less_iff of_int_numeral of_int_power)
  show ?thesis
  proof (cases "i < 0")
    case True
    then show ?thesis using b by (auto simp: NumberToString_def printable_integer_def)
  next
    case False
    then have "NumberToString rt (Fin (of_int i)) = decimal (nat i)"
      using b by (simp add: NumberToString_def printable_integer_def)
    moreover have "nat i < 4 \<longleftrightarrow> i \<in> {0, 1, 2, 3}" using False by auto
    ultimately show ?thesis using decimal_key[of "nat i"] by simp
  qed
qed

lemma NumberToString_key:
  assumes "fraction_marked rt"
  shows "NumberToString rt m \<in> {''0'', ''1'', ''2'', ''3''} \<longleftrightarrow> m \<in> {Fin 0, Fin 1, Fin 2, Fin 3}"
proof (cases m)
  case (Fin q)
  show ?thesis
  proof (cases "printable_integer q")
    case True
    define i where "i = \<lfloor>q\<rfloor>"
    have q: "q = of_int i" and b: "\<bar>q\<bar> < 10 ^ 21"
      using True by (simp_all add: printable_integer_def i_def)
    have "\<bar>(of_int i :: rat)\<bar> < 10 ^ 21" using q b by simp
    then have bi: "\<bar>i\<bar> < 10 ^ 21"
      by (metis of_int_abs of_int_less_iff of_int_numeral of_int_power)
    have "(of_int i :: rat) \<in> {0, 1, 2, 3} \<longleftrightarrow> i \<in> {0, 1, 2, 3}" by simp
    then show ?thesis using NumberToString_int_key[OF bi, of rt] q Fin by simp
  next
    case False
    then have mark: "CHR ''.'' \<in> set (FractionToString rt q) \<or> CHR ''e'' \<in> set (FractionToString rt q)"
      using assms by (simp add: fraction_marked_def)
    have "NumberToString rt m = FractionToString rt q"
      using False Fin by (simp add: NumberToString_def)
    then have l: "NumberToString rt m \<notin> {''0'', ''1'', ''2'', ''3''}" using mark by auto
    have "q \<notin> {0, 1, 2, 3}" using False by (auto simp: printable_integer_def)
    then show ?thesis using l Fin by auto
  qed
qed (simp_all add: NumberToString_def)

subsection \<open>The style resolvers\<close>

text \<open>
  Claim C4 as stated fails for a classification that JavaScript cannot convert: for the
  bag \<open>{LITHCODE: {toString: 0}}\<close> the lithology code is that object, the key
  conversion in \<open>geologicalColors[lithCode]\<close> throws, and no style is returned; for
  \<open>{Milestone: {toString: 0}}\<close> \<open>Number\<close> throws in \<open>getMilestone\<close>.
\<close>

theorem unconvertible_classification_counterexample:
  "getLithCode (JObj [(''properties'',
       JObj [(''LITHCODE'', JObj [(''toString'', JNum (Fin 0))])])])
     = Inr (JObj [(''toString'', JNum (Fin 0))])
   \<and> geologicalLayerColors sample_runtime (JObj [(''properties'',
       JObj [(''LITHCODE'', JObj [(''toString'', JNum (Fin 0))])])])
     = Inl TypeError
   \<and> geojsonColors sample_runtime (JObj [(''properties'',
       JObj [(''Milestone'', JObj [(''toString'', JNum (Fin 0))])])])
     = Inl TypeError"
  by (simp add: getMilestone_def geojsonColors_def getLithCode_def geologicalLayerColors_def
      getProps_def optChain_def or_else_def coalesce_def bindE_def)

text \<open>
  Claim C4, amended. Let the runtime print numbers as the language does, and let the
  bag of the feature bind \<open>Milestone\<close> to \<open>mv\<close> and \<open>LITHCODE\<close> to \<open>lv\<close> (\<open>undefined\<close>
  when the key is missing). If \<open>mv\<close> is convertible, \<open>geojsonColors\<close> returns a
  complete style whose fill colour is a non-empty string, and the neutral gray
  \<open>#374151\<close> whenever the milestone is not one of the numbers 0, 1, 2, 3. If \<open>lv\<close> is
  convertible, \<open>geologicalLayerColors\<close> returns a complete style whose fill colour is
  a non-empty string, and the \<open>default\<close> row's \<open>#118AB2\<close> whenever the property key of
  the lithology code is none of \<open>MC\<close>, \<open>GR\<close>, \<open>SED\<close>, \<open>VOL\<close>; the key of a string code is
  the string itself.
\<close>

theorem style_defined_default_outside_table:
  assumes "fraction_marked rt" and "getProps f = Inr props"
    and "getProp props ''Milestone'' = Inr mv" and "getProp props ''LITHCODE'' = Inr lv"
  shows "(convertible mv \<longrightarrow>
      (\<exists>m c. getMilestone rt f = Inr m
         \<and> geojsonColors rt f =
             Inr \<lparr>color = JStr ''#000'', fillColor = JStr c, weight = JNum (Fin 2),
                  fillOpacity = JNum (Fin (7 / 10))\<rparr>
         \<and> c \<noteq> []
         \<and> (m \<notin> {Fin 0, Fin 1, Fin 2, Fin 3} \<longrightarrow> c = ''#374151'')))
   \<and> (convertible lv \<longrightarrow>
      (\<exists>l k c. getLithCode f = Inr l \<and> ToString rt l = Inr k
         \<and> geologicalLayerColors rt f =
             Inr \<lparr>color = JStr ''#000'', fillColor = JStr c, weight = JNum (Fin 2),
                  fillOpacity = JNum (Fin (7 / 10))\<rparr>
         \<and> c \<noteq> []
         \<and> (k \<notin> {''MC'', ''GR'', ''SED'', ''VOL''} \<longrightarrow> c = ''#118AB2'')
         \<and> (\<forall>s. l = JStr s \<longrightarrow> k = s)))"
proof (intro conjI impI)
  assume cv: "convertible mv"
  then obtain m where m0: "ToNumber rt (coalesce mv (JNum (Fin 0))) = Inr m"
    using ToNumber_convertible[of "coalesce mv (JNum (Fin 0))" rt] coalesce_convertible[of mv]
    by auto
  then have m: "getMilestone rt f = Inr m" using getMilestone_reads[OF assms(2,3)] by simp
  define c where "c = (let k = NumberToString rt m in
             if k = ''0'' then ''#BCCFB4'' else if k = ''1'' then ''#69A761''
             else if k = ''2'' then ''#27823B'' else if k = ''3'' then ''#09622A''
             else ''#374151'')"
  have st: "geojsonColors rt f =
          Inr \<lparr>color = JStr ''#000'', fillColor = JStr c, weight = JNum (Fin 2),
               fillOpacity = JNum (Fin (7 / 10))\<rparr>"
    unfolding c_def by (rule geojsonColors_fill[OF m])
  have ne: "c \<noteq> []" by (simp add: c_def Let_def)
  have key: "NumberToString rt m \<notin> {''0'', ''1'', ''2'', ''3''} \<longrightarrow> c = ''#374151''"
    by (simp add: c_def Let_def)
  have num: "m \<notin> {Fin 0, Fin 1, Fin 2, Fin 3} \<longrightarrow> c = ''#374151''"
    using key NumberToString_key[OF assms(1), of m] by blast
  show "\<exists>m c. getMilestone rt f = Inr m
         \<and> geojsonColors rt f =
             Inr \<lparr>color = JStr ''#000'', fillColor = JStr c, weight = JNum (Fin 2),
                  fillOpacity = JNum (Fin (7 / 10))\<rparr>
         \<and> c \<noteq> []
         \<and> (m \<notin> {Fin 0, Fin 1, Fin 2, Fin 3} \<longrightarrow> c = ''#374151'')"
    using m st ne num by blast
next
  assume cv: "convertible lv"
  define l where "l = or_else lv (JStr ''default'')"
  have l: "getLithCode f = Inr l" unfolding l_def by (rule getLithCode_reads[OF assms(2,4)])
  have "convertible l" using cv or_else_default_convertible[of lv] by (simp add: l_def)
  then obtain k where k: "ToString rt l = Inr k" using ToString_convertible[of l rt] by auto
  define c where "c = (
             if k = ''MC'' then ''#E63946'' else if k = ''GR'' then ''#F77F00''
             else if k = ''SED'' then ''#FCBF49'' else if k = ''VOL'' then ''#06A77D''
             else ''#118AB2'')"
  have st: "geologicalLayerColors rt f =
          Inr \<lparr>color = JStr ''#000'', fillColor = JStr c, weight = JNum (Fin 2),
               fillOpacity = JNum (Fin (7 / 10))\<rparr>"
    unfolding c_def by (rule geologicalLayerColors_fill[OF l k])
  have ne: "c \<noteq> []" by (simp add: c_def)
  have key: "k \<notin> {''MC'', ''GR'', ''SED'', ''VOL''} \<longrightarrow> c = ''#118AB2''"
    by (simp add: c_def)
  have str: "\<forall>s. l = JStr s \<longrightarrow> k = s" using k by auto
  show "\<exists>l k c. getLithCode f = Inr l \<and> ToString rt l = Inr k
         \<and> geologicalLayerColors rt f =
             Inr \<lparr>color = JStr ''#000'', fillColor = JStr c, weight = JNum (Fin 2),
                  fillOpacity = JNum (Fin (7 / 10))\<rparr>
         \<and> c \<noteq> []
         \<and> (k \<notin> {''MC'', ''GR'', ''SED'', ''VOL''} \<longrightarrow> c = ''#118AB2'')
         \<and> (\<forall>s. l = JStr s \<longrightarrow> k = s)"
    using l k st ne key str by blast
qed

lemma sample_runtime_marked: "fraction_marked sample_runtime"
  by (simp add: fraction_marked_def sample_runtime_def)

text \<open>
  The theorem at the feature \<open>{properties: {Milestone: 1.5, LITHCODE: "XYZ"}}\<close>.
\<close>

theorem style_defined_default_outside_table_witness:
  "fraction_marked sample_runtime
   \<and> getMilestone sample_runtime
     (JObj [(''properties'', JObj [(''Milestone'', JNum (Fin (3 / 2))), (''LITHCODE'', JStr ''XYZ'')])])
   = Inr (Fin (3 / 2))
   \<and> map_sum id fillColor (geojsonColors sample_runtime
     (JObj [(''properties'', JObj [(''Milestone'', JNum (Fin (3 / 2))), (''LITHCODE'', JStr ''XYZ'')])]))
   = Inr (JStr ''#374151'')
   \<and> getLithCode
     (JObj [(''properties'', JObj [(''Milestone'', JNum (Fin (3 / 2))), (''LITHCODE'', JStr ''XYZ'')])])
   = Inr (JStr ''XYZ'')
   \<and> map_sum id fillColor (geologicalLayerColors sample_runtime
     (JObj [(''properties'', JObj [(''Milestone'', JNum (Fin (3 / 2))), (''LITHCODE'', JStr ''XYZ'')])]))
   = Inr (JStr ''#118AB2'')"
proof -
  let ?b = "JObj [(''Milestone'', JNum (Fin (3 / 2))), (''LITHCODE'', JStr ''XYZ'')]"
  let ?f = "JObj [(''properties'', ?b)]"
  have p: "getProps ?f = Inr ?b"
    by (simp add: getProps_def optChain_def or_else_def bindE_def)
  have mv: "getProp ?b ''Milestone'' = Inr (JNum (Fin (3 / 2)))"
    and lv: "getProp ?b ''LITHCODE'' = Inr (JStr ''XYZ'')" by simp_all
  have m: "getMilestone sample_runtime ?f = Inr (Fin (3 / 2))"
    by (simp add: getMilestone_reads[OF p mv] coalesce_def)
  have l: "getLithCode ?f = Inr (JStr ''XYZ'')"
    by (simp add: getLithCode_reads[OF p lv] or_else_def)
  from style_defined_default_outside_table[OF sample_runtime_marked p mv lv]
  show ?thesis using sample_runtime_marked m l by auto
qed

text \<open>
  Claim C7 as stated fails in the current component: for the feature
  \<open>{properties: {Milestone: 2, LITHCODE: "GR"}}\<close> both resolvers return the fill opacity
  0.7.
\<close>

theorem fill_opacity_equal_counterexample:
  "map_sum id fillOpacity (geojsonColors sample_runtime
      (JObj [(''properties'', JObj [(''Milestone'', JNum (Fin 2)), (''LITHCODE'', JStr ''GR'')])]))
     = Inr (JNum (Fin (7 / 10)))
   \<and> map_sum id fillOpacity (geologicalLayerColors sample_runtime
      (JObj [(''properties'', JObj [(''Milestone'', JNum (Fin 2)), (''LITHCODE'', JStr ''GR'')])]))
     = Inr (JNum (Fin (7 / 10)))
   \<and> \<not> (map_sum id fillOpacity (geojsonColors sample_runtime
      (JObj [(''properties'', JObj [(''Milestone'', JNum (Fin 2)), (''LITHCODE'', JStr ''GR'')])]))
     \<noteq> map_sum id fillOpacity (geologicalLayerColors sample_runtime
      (JObj [(''properties'', JObj [(''Milestone'', JNum (Fin 2)), (''LITHCODE'', JStr ''GR'')])])))"
  by (simp add: getMilestone_def geojsonColors_def getLithCode_def
      geologicalLayerColors_def getProps_def optChain_def or_else_def coalesce_def bindE_def
      milestoneColors_def geologicalColors_def entry_def NumberToString_2)

text \<open>
  Claim C7, amended. Every style that \<open>geojsonColors\<close> or \<open>geologicalLayerColors\<close>
  returns has the stroke colour \<open>#000\<close>, the weight 2 and the fill opacity 0.7, the
  same on both layers; every style that the earlier clusters-only version of
  \<open>geojsonColors\<close> returns has the same stroke colour and weight and the fill opacity
  1, which differs from 0.7. A resolver returns a style whenever the value it
  classifies (\<open>Milestone\<close>, \<open>LITHCODE\<close>) is convertible.
\<close>

theorem style_fixed_parts:
  "(\<forall>st. geojsonColors rt f = Inr st \<longrightarrow>
        color st = JStr ''#000'' \<and> weight st = JNum (Fin 2)
        \<and> fillOpacity st = JNum (Fin (7 / 10)))
   \<and> (\<forall>st. geologicalLayerColors rt f = Inr st \<longrightarrow>
        color st = JStr ''#000'' \<and> weight st = JNum (Fin 2)
        \<and> fillOpacity st = JNum (Fin (7 / 10)))
   \<and> (\<forall>st. geojsonColors_earlier rt f = Inr st \<longrightarrow>
        color st = JStr ''#000'' \<and> weight st = JNum (Fin 2)
        \<and> fillOpacity st = JNum (Fin 1))
   \<and> (\<forall>props mv. getProps f = Inr props \<and> getProp props ''Milestone'' = Inr mv
          \<and> convertible mv \<longrightarrow>
        (\<exists>st. geojsonColors rt f = Inr st) \<and> (\<exists>st. geojsonColors_earlier rt f = Inr st))
   \<and> (\<forall>props lv. getProps f = Inr props \<and> getProp props ''LITHCODE'' = Inr lv
          \<and> convertible lv \<longrightarrow>
        (\<exists>st. geologicalLayerColors rt f = Inr st))
   \<and> JNum (Fin 1) \<noteq> JNum (Fin (7 / 10))"
proof -
  have a: "\<forall>st. geojsonColors rt f = Inr st \<longrightarrow>
        color st = JStr ''#000'' \<and> weight st = JNum (Fin 2)
        \<and> fillOpacity st = JNum (Fin (7 / 10))"
  proof (cases "getMilestone rt f")
    case (Inl e)
    then show ?thesis by (simp add: geojsonColors_throws)
  next
    case (Inr m)
    then show ?thesis using geojsonColors_fill[OF Inr] by auto
  qed
  have c: "\<forall>st. geojsonColors_earlier rt f = Inr st \<longrightarrow>
        color st = JStr ''#000'' \<and> weight st = JNum (Fin 2)
        \<and> fillOpacity st = JNum (Fin 1)"
  proof (cases "getMilestone rt f")
    case (Inl e)
    then show ?thesis by (simp add: geojsonColors_throws)
  next
    case (Inr m)
    then show ?thesis using geojsonColors_earlier_fill[OF Inr] by auto
  qed
  obtain l where l: "getLithCode f = Inr l" using getLithCode_total by blast
  have b: "\<forall>st. geologicalLayerColors rt f = Inr st \<longrightarrow>
        color st = JStr ''#000'' \<and> weight st = JNum (Fin 2)
        \<and> fillOpacity st = JNum (Fin (7 / 10))"
  proof (cases "ToString rt l")
    case (Inl e)
    then show ?thesis by (simp add: geologicalLayerColors_throws[OF l])
  next
    case (Inr k)
    then show ?thesis using geologicalLayerColors_fill[OF l Inr] by auto
  qed
  have d: "\<forall>props mv. getProps f = Inr props \<and> getProp props ''Milestone'' = Inr mv
          \<and> convertible mv \<longrightarrow>
        (\<exists>st. geojsonColors rt f = Inr st) \<and> (\<exists>st. geojsonColors_earlier rt f = Inr st)"
  proof (intro allI impI)
    fix props mv
    assume h: "getProps f = Inr props \<and> getProp props ''Milestone'' = Inr mv \<and> convertible mv"
    then obtain m where "ToNumber rt (coalesce mv (JNum (Fin 0))) = Inr m"
      using ToNumber_convertible[of "coalesce mv (JNum (Fin 0))" rt] coalesce_convertible[of mv]
      by auto
    then have m: "getMilestone rt f = Inr m" using getMilestone_reads[of f props mv rt] h by simp
    show "(\<exists>st. geojsonColors rt f = Inr st) \<and> (\<exists>st. geojsonColors_earlier rt f = Inr st)"
      using geojsonColors_fill[OF m] geojsonColors_earlier_fill[OF m] by auto
  qed
  have e: "\<forall>props lv. getProps f = Inr props \<and> getProp props ''LITHCODE'' = Inr lv
          \<and> convertible lv \<longrightarrow>
        (\<exists>st. geologicalLayerColors rt f = Inr st)"
  proof (intro allI impI)
    fix props lv
    assume h: "getProps f = Inr props \<and> getProp props ''LITHCODE'' = Inr lv \<and> convertible lv"
    then have l': "getLithCode f = Inr (or_else lv (JStr ''default''))"
      using getLithCode_reads[of f props lv] by simp
    have "convertible (or_else lv (JStr ''default''))"
      using h or_else_default_convertible[of lv] by simp
    then obtain k where k: "ToString rt (or_else lv (JStr ''default'')) = Inr k"
      using ToString_convertible[of "or_else lv (JStr ''default'')" rt] by auto
    show "\<exists>st. geologicalLayerColors rt f = Inr st"
      using geologicalLayerColors_fill[OF l' k] by auto
  qed
  show ?thesis using a b c d e by simp
qed

text \<open>
  The theorem at the feature \<open>{properties: {Milestone: 2, LITHCODE: "GR"}}\<close>: each of
  the three resolvers returns a style with the fixed parts.
\<close>

theorem style_fixed_parts_witness:
  "map_sum id (\<lambda>st. (color st, weight st, fillOpacity st)) (geojsonColors sample_runtime
      (JObj [(''properties'', JObj [(''Milestone'', JNum (Fin 2)), (''LITHCODE'', JStr ''GR'')])]))
     = Inr (JStr ''#000'', JNum (Fin 2), JNum (Fin (7 / 10)))
   \<and> map_sum id (\<lambda>st. (color st, weight st, fillOpacity st)) (geologicalLayerColors sample_runtime
      (JObj [(''properties'', JObj [(''Milestone'', JNum (Fin 2)), (''LITHCODE'', JStr ''GR'')])]))
     = Inr (JStr ''#000'', JNum (Fin 2), JNum (Fin (7 / 10)))
   \<and> map_sum id (\<lambda>st. (color st, weight st, fillOpacity st)) (geojsonColors_earlier sample_runtime
      (JObj [(''properties'', JObj [(''Milestone'', JNum (Fin 2)), (''LITHCODE'', JStr ''GR'')])]))
     = Inr (JStr ''#000'', JNum (Fin 2), JNum (Fin 1))"
proof -
  let ?b = "JObj [(''Milestone'', JNum (Fin 2)), (''LITHCODE'', JStr ''GR'')]"
  let ?f = "JObj [(''properties'', ?b)]"
  have p: "getProps ?f = Inr ?b"
    by (simp add: getProps_def optChain_def or_else_def bindE_def)
  have mv: "getProp ?b ''Milestone'' = Inr (JNum (Fin 2))"
    and lv: "getProp ?b ''LITHCODE'' = Inr (JStr ''GR'')" by simp_all
  have cv: "convertible (JNum (Fin 2))" "convertible (JStr ''GR'')" by simp_all
  note t = style_fixed_parts[of sample_runtime ?f]
  from t p mv cv obtain s1 s3 where
    s1: "geojsonColors sample_runtime ?f = Inr s1"
    and s3: "geojsonColors_earlier sample_runtime ?f = Inr s3" by blast
  from t p lv cv obtain s2 where s2: "geologicalLayerColors sample_runtime ?f = Inr s2"
    by blast
  from t s1 s2 s3 show ?thesis by simp
qed

subsection \<open>The fallback chains\<close>

lemma getProps_missing:
  "nullish f \<or> (\<exists>p. getProp f ''properties'' = Inr p \<and> \<not> truthy p) \<Longrightarrow> getProps f = Inr (JObj [])"
  by (cases f) (auto simp: getProps_def optChain_def or_else_def bindE_def)

lemma getMilestone_throws_only_unconvertible:
  assumes "getMilestone rt f = Inl e"
  shows "e = TypeError \<and> (\<exists>props m. getProps f = Inr props
           \<and> getProp props ''Milestone'' = Inr m \<and> \<not> nullish m \<and> \<not> convertible m)"
proof -
  obtain props mv lv where r: "getProps f = Inr props" "getProp props ''Milestone'' = Inr mv"
    using bag_reads[of f] by blast
  have eq: "getMilestone rt f = ToNumber rt (coalesce mv (JNum (Fin 0)))"
    by (rule getMilestone_reads[OF r])
  have nc: "\<not> convertible mv"
    using assms eq ToNumber_convertible[of "coalesce mv (JNum (Fin 0))" rt]
      coalesce_convertible[of mv] by auto
  then have "ToNumber rt (coalesce mv (JNum (Fin 0))) = Inl TypeError"
    using ToNumber_convertible[of "coalesce mv (JNum (Fin 0))" rt] coalesce_convertible[of mv]
    by simp
  then have "e = TypeError" using assms eq by simp
  moreover have "\<not> nullish mv" using nc nullish_convertible by blast
  ultimately show ?thesis using r nc by blast
qed

text \<open>
  Claim C5 as stated fails where the alternate key is bound to a falsy value: the bag
  \<open>{" cl name": ""}\<close> lacks \<open>Cluster\<close> and contains the alternate key, yet the cluster
  name is \<open>"Unknown"\<close>, not the alternate key's value.
\<close>

theorem alternate_key_falsy_counterexample:
  "getProp (JObj [('' cl name'', JStr '''')]) ''Cluster'' = Inr JUndefined
   \<and> getProp (JObj [('' cl name'', JStr '''')]) '' cl name'' = Inr (JStr '''')
   \<and> getClusterName (JObj [(''properties'', JObj [('' cl name'', JStr '''')])])
       = Inr (JStr ''Unknown'')
   \<and> getClusterName (JObj [(''properties'', JObj [('' cl name'', JStr '''')])])
       \<noteq> Inr (JStr '''')"
  by (simp add: getClusterName_def getProps_def optChain_def or_else_def bindE_def)

text \<open>
  Claim C5, amended. When the bag lacks \<open>Cluster\<close> and binds \<open>" cl name"\<close> to a truthy
  value, \<open>getClusterName\<close> returns that value. When the bag lacks both keys it returns
  \<open>"Unknown"\<close>; when it lacks \<open>Milestone\<close>, \<open>getMilestone\<close> returns 0; when it lacks
  \<open>LITHCODE\<close>, \<open>getLithCode\<close> returns \<open>"default"\<close>. A missing feature or a missing (or
  null) \<open>properties\<close> bag gives the three sentinels. So no classifier throws on a
  missing key or a missing bag: \<open>getClusterName\<close> and \<open>getLithCode\<close> never throw, and
  \<open>getMilestone\<close> throws only a \<open>TypeError\<close> and only for a present \<open>Milestone\<close> that is
  not convertible.
\<close>

theorem classifier_fallback_chain:
  "(\<exists>v. getClusterName f = Inr v) \<and> (\<exists>v. getLithCode f = Inr v)
   \<and> (getProps f = Inr props \<and> getProp props ''Cluster'' = Inr JUndefined
        \<and> getProp props '' cl name'' = Inr v \<and> truthy v
      \<longrightarrow> getClusterName f = Inr v)
   \<and> (getProps f = Inr props \<and> getProp props ''Cluster'' = Inr JUndefined
        \<and> getProp props '' cl name'' = Inr JUndefined
      \<longrightarrow> getClusterName f = Inr (JStr ''Unknown''))
   \<and> (getProps f = Inr props \<and> getProp props ''Milestone'' = Inr JUndefined
      \<longrightarrow> getMilestone rt f = Inr (Fin 0))
   \<and> (getProps f = Inr props \<and> getProp props ''LITHCODE'' = Inr JUndefined
      \<longrightarrow> getLithCode f = Inr (JStr ''default''))
   \<and> (nullish f \<or> (\<exists>p. getProp f ''properties'' = Inr p \<and> nullish p)
      \<longrightarrow> getClusterName f = Inr (JStr ''Unknown'') \<and> getMilestone rt f = Inr (Fin 0)
          \<and> getLithCode f = Inr (JStr ''default''))
   \<and> (\<forall>e. getMilestone rt f = Inl e
      \<longrightarrow> e = TypeError \<and> (\<exists>props m. getProps f = Inr props
             \<and> getProp props ''Milestone'' = Inr m \<and> \<not> nullish m \<and> \<not> convertible m))"
proof -
  have nothrow: "(\<exists>v. getClusterName f = Inr v) \<and> (\<exists>v. getLithCode f = Inr v)"
    using getClusterName_total getLithCode_total by blast
  have alt: "getProps f = Inr props \<and> getProp props ''Cluster'' = Inr JUndefined
        \<and> getProp props '' cl name'' = Inr v \<and> truthy v
      \<longrightarrow> getClusterName f = Inr v"
    by (simp add: getClusterName_def bindE_simps or_else_def)
  have none: "getProps f = Inr props \<and> getProp props ''Cluster'' = Inr JUndefined
        \<and> getProp props '' cl name'' = Inr JUndefined
      \<longrightarrow> getClusterName f = Inr (JStr ''Unknown'')"
    by (simp add: getClusterName_def bindE_simps or_else_def)
  have ms: "getProps f = Inr props \<and> getProp props ''Milestone'' = Inr JUndefined
      \<longrightarrow> getMilestone rt f = Inr (Fin 0)"
    by (simp add: getMilestone_def bindE_simps coalesce_def)
  have lc: "getProps f = Inr props \<and> getProp props ''LITHCODE'' = Inr JUndefined
      \<longrightarrow> getLithCode f = Inr (JStr ''default'')"
    by (simp add: getLithCode_def bindE_simps or_else_def)
  have nobag: "nullish f \<or> (\<exists>p. getProp f ''properties'' = Inr p \<and> nullish p)
      \<longrightarrow> getClusterName f = Inr (JStr ''Unknown'') \<and> getMilestone rt f = Inr (Fin 0)
          \<and> getLithCode f = Inr (JStr ''default'')"
  proof
    assume a: "nullish f \<or> (\<exists>p. getProp f ''properties'' = Inr p \<and> nullish p)"
    have "\<And>p. nullish p \<Longrightarrow> \<not> truthy p" by (erule nullish.elims) simp_all
    with a have "getProps f = Inr (JObj [])" using getProps_missing[of f] by blast
    then show "getClusterName f = Inr (JStr ''Unknown'') \<and> getMilestone rt f = Inr (Fin 0)
          \<and> getLithCode f = Inr (JStr ''default'')"
      by (simp add: getClusterName_def getMilestone_def getLithCode_def bindE_simps
          or_else_def coalesce_def)
  qed
  have thr: "\<forall>e. getMilestone rt f = Inl e
      \<longrightarrow> e = TypeError \<and> (\<exists>props m. getProps f = Inr props
             \<and> getProp props ''Milestone'' = Inr m \<and> \<not> nullish m \<and> \<not> convertible m)"
    using getMilestone_throws_only_unconvertible by blast
  from nothrow alt none ms lc nobag thr show ?thesis by blast
qed

text \<open>
  The theorem at the bags \<open>{" cl name": "East"}\<close> and \<open>{}\<close>, at a missing feature, at a
  feature without \<open>properties\<close>, and at the bag \<open>{Milestone: {toString: 0}}\<close>, where
  \<open>getMilestone\<close> throws.
\<close>

theorem classifier_fallback_chain_witness:
  "getClusterName (JObj [(''properties'', JObj [('' cl name'', JStr ''East'')])])
     = Inr (JStr ''East'')
   \<and> getClusterName (JObj [(''properties'', JObj [])]) = Inr (JStr ''Unknown'')
   \<and> getMilestone sample_runtime (JObj [(''properties'', JObj [])]) = Inr (Fin 0)
   \<and> getLithCode (JObj [(''properties'', JObj [])]) = Inr (JStr ''default'')
   \<and> getClusterName JUndefined = Inr (JStr ''Unknown'')
   \<and> getMilestone sample_runtime JUndefined = Inr (Fin 0)
   \<and> getLithCode JUndefined = Inr (JStr ''default'')
   \<and> getClusterName (JObj [(''type'', JStr ''Feature'')]) = Inr (JStr ''Unknown'')
   \<and> getMilestone sample_runtime
        (JObj [(''properties'', JObj [(''Milestone'', JObj [(''toString'', JNum (Fin 0))])])])
      = Inl TypeError"
proof -
  let ?f1 = "JObj [(''properties'', JObj [('' cl name'', JStr ''East'')])]"
  let ?f2 = "JObj [(''properties'', JObj [])]"
  let ?f3 = "JObj [(''type'', JStr ''Feature'')]"
  let ?f4 = "JObj [(''properties'', JObj [(''Milestone'', JObj [(''toString'', JNum (Fin 0))])])]"
  have p1: "getProps ?f1 = Inr (JObj [('' cl name'', JStr ''East'')])"
    and p2: "getProps ?f2 = Inr (JObj [])"
    by (simp_all add: getProps_def optChain_def or_else_def bindE_def)
  have p3: "getProp ?f3 ''properties'' = Inr JUndefined" by simp
  have "\<exists>e. getMilestone sample_runtime ?f4 = Inl e"
    by (simp add: getMilestone_def getProps_def optChain_def or_else_def coalesce_def bindE_def)
  then obtain e where e: "getMilestone sample_runtime ?f4 = Inl e" by blast
  then have p4: "getMilestone sample_runtime ?f4 = Inl TypeError"
    using classifier_fallback_chain[of ?f4 "JObj []" JUndefined sample_runtime] by blast
  from classifier_fallback_chain[of ?f1 "JObj [('' cl name'', JStr ''East'')]" "JStr ''East'' " sample_runtime]
    classifier_fallback_chain[of ?f2 "JObj []" JUndefined sample_runtime]
    classifier_fallback_chain[of JUndefined "JObj []" JUndefined sample_runtime]
    classifier_fallback_chain[of ?f3 "JObj []" JUndefined sample_runtime]
  show ?thesis using p1 p2 p3 p4 by simp
qed

text \<open>
  Claim C10 as stated fails in its last clause: a present \<open>Milestone\<close> that is not a
  number need not classify as \<open>NaN\<close>. The boolean \<open>true\<close> classifies as 1 and the empty
  string as 0.
\<close>

theorem non_numeric_milestone_counterexample:
  "getMilestone sample_runtime (JObj [(''properties'', JObj [(''Milestone'', JBool True)])])
     = Inr (Fin 1)
   \<and> getMilestone sample_runtime (JObj [(''properties'', JObj [(''Milestone'', JBool True)])])
     \<noteq> Inr NaN
   \<and> getMilestone sample_runtime (JObj [(''properties'', JObj [(''Milestone'', JStr '''')])])
     = Inr (Fin 0)
   \<and> getMilestone sample_runtime (JObj [(''properties'', JObj [(''Milestone'', JStr '''')])])
     \<noteq> Inr NaN"
  by (simp add: getMilestone_def getProps_def optChain_def or_else_def coalesce_def bindE_def
      NumberOfString_def)

text \<open>
  Claim C10, amended. A \<open>Cluster\<close> bound to a falsy value is treated as absent: the
  cluster name is the alternate key's value when that is truthy and \<open>"Unknown"\<close>
  otherwise. A falsy \<open>LITHCODE\<close> gives \<open>"default"\<close>. \<open>getMilestone\<close> falls back to 0 only
  for a \<open>Milestone\<close> that is \<open>undefined\<close> or \<open>null\<close>; any other value is converted by
  \<open>Number\<close>: a number is itself (so \<open>{Milestone: 0}\<close> classifies as 0), a boolean is 0 or
  1, the empty string is 0, any other string is what the runtime parses from it, and a
  value that is not convertible makes \<open>getMilestone\<close> throw a \<open>TypeError\<close>. Where
  \<open>Number\<close> gives \<open>NaN\<close>, the milestone is \<open>NaN\<close> and not the sentinel 0. The bags
  \<open>{Cluster: ""}\<close> and \<open>{LITHCODE: ""}\<close> give \<open>"Unknown"\<close> and \<open>"default"\<close>.
\<close>

theorem falsy_canonical_values:
  "(getProps f = Inr props \<and> getProp props ''Cluster'' = Inr a \<and> \<not> truthy a
        \<and> getProp props '' cl name'' = Inr b
      \<longrightarrow> getClusterName f = Inr (if truthy b then b else JStr ''Unknown''))
   \<and> (getProps f = Inr props \<and> getProp props ''LITHCODE'' = Inr c \<and> \<not> truthy c
      \<longrightarrow> getLithCode f = Inr (JStr ''default''))
   \<and> (getProps f = Inr props \<and> getProp props ''Milestone'' = Inr m \<and> nullish m
      \<longrightarrow> getMilestone rt f = Inr (Fin 0))
   \<and> (getProps f = Inr props \<and> getProp props ''Milestone'' = Inr m \<and> \<not> nullish m
      \<longrightarrow> getMilestone rt f = ToNumber rt m)
   \<and> ToNumber rt (JNum n) = Inr n
   \<and> ToNumber rt (JBool t) = Inr (Fin (if t then 1 else 0))
   \<and> ToNumber rt (JStr []) = Inr (Fin 0)
   \<and> (s \<noteq> [] \<longrightarrow> ToNumber rt (JStr s) = Inr (StringToNumber rt s))
   \<and> (\<not> convertible m \<longrightarrow> ToNumber rt m = Inl TypeError)
   \<and> (getProps f = Inr props \<and> getProp props ''Milestone'' = Inr m \<and> \<not> nullish m
        \<and> ToNumber rt m = Inr NaN
      \<longrightarrow> getMilestone rt f = Inr NaN \<and> getMilestone rt f \<noteq> Inr (Fin 0))
   \<and> getClusterName (JObj [(''properties'', JObj [(''Cluster'', JStr '''')])])
       = Inr (JStr ''Unknown'')
   \<and> getLithCode (JObj [(''properties'', JObj [(''LITHCODE'', JStr '''')])])
       = Inr (JStr ''default'')
   \<and> getMilestone rt (JObj [(''properties'', JObj [(''Milestone'', JNum (Fin 0))])])
       = Inr (Fin 0)"
proof -
  have nc: "\<not> convertible m \<longrightarrow> ToNumber rt m = Inl TypeError"
    using ToNumber_convertible[of m rt] by simp
  have rest: "(getProps f = Inr props \<and> getProp props ''Cluster'' = Inr a \<and> \<not> truthy a
        \<and> getProp props '' cl name'' = Inr b
      \<longrightarrow> getClusterName f = Inr (if truthy b then b else JStr ''Unknown''))
   \<and> (getProps f = Inr props \<and> getProp props ''LITHCODE'' = Inr c \<and> \<not> truthy c
      \<longrightarrow> getLithCode f = Inr (JStr ''default''))
   \<and> (getProps f = Inr props \<and> getProp props ''Milestone'' = Inr m \<and> nullish m
      \<longrightarrow> getMilestone rt f = Inr (Fin 0))
   \<and> (getProps f = Inr props \<and> getProp props ''Milestone'' = Inr m \<and> \<not> nullish m
      \<longrightarrow> getMilestone rt f = ToNumber rt m)
   \<and> ToNumber rt (JNum n) = Inr n
   \<and> ToNumber rt (JBool t) = Inr (Fin (if t then 1 else 0))
   \<and> ToNumber rt (JStr []) = Inr (Fin 0)
   \<and> (s \<noteq> [] \<longrightarrow> ToNumber rt (JStr s) = Inr (StringToNumber rt s))
   \<and> (getProps f = Inr props \<and> getProp props ''Milestone'' = Inr m \<and> \<not> nullish m
        \<and> ToNumber rt m = Inr NaN
      \<longrightarrow> getMilestone rt f = Inr NaN \<and> getMilestone rt f \<noteq> Inr (Fin 0))
   \<and> getClusterName (JObj [(''properties'', JObj [(''Cluster'', JStr '''')])])
       = Inr (JStr ''Unknown'')
   \<and> getLithCode (JObj [(''properties'', JObj [(''LITHCODE'', JStr '''')])])
       = Inr (JStr ''default'')
   \<and> getMilestone rt (JObj [(''properties'', JObj [(''Milestone'', JNum (Fin 0))])])
       = Inr (Fin 0)"
    by (simp add: getClusterName_def getLithCode_def getMilestone_def getProps_def optChain_def
        bindE_def or_else_def coalesce_def NumberOfString_def)
  from nc rest show ?thesis by blast
qed

text \<open>
  The theorem at the bags \<open>{Cluster: 0, " cl name": "East"}\<close>, \<open>{LITHCODE: null}\<close>,
  \<open>{Milestone: null}\<close>, \<open>{Milestone: "2"}\<close>, \<open>{Milestone: "n/a"}\<close> and
  \<open>{Milestone: {toString: 0}}\<close>.
\<close>

theorem falsy_canonical_values_witness:
  "getClusterName (JObj [(''properties'', JObj [(''Cluster'', JNum (Fin 0)), ('' cl name'', JStr ''East'')])])
     = Inr (JStr ''East'')
   \<and> getLithCode (JObj [(''properties'', JObj [(''LITHCODE'', JNull)])]) = Inr (JStr ''default'')
   \<and> getMilestone sample_runtime (JObj [(''properties'', JObj [(''Milestone'', JNull)])])
     = Inr (Fin 0)
   \<and> getMilestone sample_runtime (JObj [(''properties'', JObj [(''Milestone'', JStr ''2'')])])
     = Inr (Fin 2)
   \<and> getMilestone sample_runtime (JObj [(''properties'', JObj [(''Milestone'', JStr ''n/a'')])])
     = Inr NaN
   \<and> getMilestone sample_runtime
        (JObj [(''properties'', JObj [(''Milestone'', JObj [(''toString'', JNum (Fin 0))])])])
     = Inl TypeError"
proof -
  let ?b1 = "JObj [(''Cluster'', JNum (Fin 0)), ('' cl name'', JStr ''East'')]"
  let ?b2 = "JObj [(''LITHCODE'', JNull)]"
  let ?b3 = "JObj [(''Milestone'', JNull)]"
  let ?b4 = "JObj [(''Milestone'', JStr ''2'')]"
  let ?b5 = "JObj [(''Milestone'', JStr ''n/a'')]"
  let ?o = "JObj [(''toString'', JNum (Fin 0))]"
  let ?b6 = "JObj [(''Milestone'', ?o)]"
  have p: "\<And>b. getProps (JObj [(''properties'', JObj b)]) = Inr (JObj b)"
    by (simp add: getProps_def optChain_def or_else_def bindE_def)
  from falsy_canonical_values[of "JObj [(''properties'', ?b1)]" ?b1 "JNum (Fin 0)" "JStr ''East''" JUndefined JUndefined sample_runtime]
    falsy_canonical_values[of "JObj [(''properties'', ?b2)]" ?b2 JUndefined JUndefined JNull JUndefined sample_runtime]
    falsy_canonical_values[of "JObj [(''properties'', ?b3)]" ?b3 JUndefined JUndefined JUndefined JNull sample_runtime]
    falsy_canonical_values[of "JObj [(''properties'', ?b4)]" ?b4 JUndefined JUndefined JUndefined "JStr ''2''" sample_runtime _ _ "''2''"]
    falsy_canonical_values[of "JObj [(''properties'', ?b5)]" ?b5 JUndefined JUndefined JUndefined "JStr ''n/a''" sample_runtime _ _ "''n/a''"]
    falsy_canonical_values[of "JObj [(''properties'', ?b6)]" ?b6 JUndefined JUndefined JUndefined ?o sample_runtime]
  show ?thesis by (simp add: p sample_runtime_def)
qed

section \<open>Properties of the coordinate reprojector\<close>

lemma pair_of_Some: "pair_of v = Some (x, y) \<longleftrightarrow> v = JArr [JNum (Fin x), JNum (Fin y)]"
  by (cases v rule: pair_of.cases) auto

lemma transformCoordinates_map_all:
  "(\<And>c. c \<in> set cs \<Longrightarrow> transformCoordinates proj4 c = Inr (f c))
   \<Longrightarrow> transformCoordinates_map proj4 cs = Inr (map f cs)"
  by (induction cs) (simp_all add: bindE_def)

lemma valid_not_number: "valid_coords c \<Longrightarrow> \<not> is_number c"
  by (cases c) auto

lemma transform_valid:
  assumes p: "\<And>x y. proj4 [JNum (Fin x), JNum (Fin y)] = Inr [JNum (lon x y), JNum (lat x y)]"
  shows "valid_coords c \<Longrightarrow> transformCoordinates proj4 c
           = Inr (map_leaves (\<lambda>x y. JArr [JNum (lon x y), JNum (lat x y)]) c)"
proof (induction c rule: valid_coords.induct)
  case (1 cs)
  show ?case
  proof (cases "pair_of (JArr cs)")
    case (Some xy)
    obtain x y where xy: "xy = (x, y)" by (cases xy)
    with Some have cs: "cs = [JNum (Fin x), JNum (Fin y)]" by (simp add: pair_of_Some)
    show ?thesis using p[of x y] by (simp add: cs elem_def bindE_def)
  next
    case None
    with "1.prems" have all: "\<forall>c \<in> set cs. valid_coords c" by simp
    have notnum: "\<not> is_number (elem cs 0)"
    proof (cases cs)
      case Nil then show ?thesis by (simp add: elem_def)
    next
      case (Cons a as)
      then have "valid_coords a" using all by simp
      then show ?thesis using Cons by (simp add: elem_def valid_not_number)
    qed
    have "transformCoordinates_map proj4 cs
           = Inr (map (map_leaves (\<lambda>x y. JArr [JNum (lon x y), JNum (lat x y)])) cs)"
      by (rule transformCoordinates_map_all) (use "1.IH" None all in auto)
    then show ?thesis using notnum None by (simp add: bindE_def)
  qed
qed simp_all

lemma shape_valid:
  "valid_coords c \<Longrightarrow>
   shape_of (map_leaves (\<lambda>x y. JArr [JNum (lon x y), JNum (lat x y)]) c) = shape_of c"
proof (induction c rule: valid_coords.induct)
  case (1 cs)
  show ?case
  proof (cases "pair_of (JArr cs)")
    case (Some xy)
    obtain x y where xy: "xy = (x, y)" by (cases xy)
    with Some have cs: "cs = [JNum (Fin x), JNum (Fin y)]" by (simp add: pair_of_Some)
    show ?thesis by (simp add: cs)
  next
    case None
    with "1.prems" have all: "\<forall>c \<in> set cs. valid_coords c" by simp
    then show ?thesis using "1.IH" None by simp
  qed
qed simp_all

text \<open>
  Claim C1. Let the projection map every pair of finite numbers \<open>[x, y]\<close> to a pair of
  numbers \<open>[lon x y, lat x y]\<close>. Then on every valid coordinate structure
  \<open>transformCoordinates\<close> returns (it does not throw) the structure in which every leaf
  pair \<open>[x, y]\<close> is replaced by \<open>[lon x y, lat x y]\<close>, an image that depends on that leaf
  alone, and every array keeps its elements' order; the result has the nesting shape
  of the input; and a leaf on its own is transformed to the same image.
\<close>

theorem transformCoordinates_same_shape_leaves_projected:
  assumes "valid_coords c"
    and "\<And>x y. proj4 [JNum (Fin x), JNum (Fin y)] = Inr [JNum (lon x y), JNum (lat x y)]"
  shows "transformCoordinates proj4 c
           = Inr (map_leaves (\<lambda>x y. JArr [JNum (lon x y), JNum (lat x y)]) c)
         \<and> shape_of (map_leaves (\<lambda>x y. JArr [JNum (lon x y), JNum (lat x y)]) c) = shape_of c
         \<and> (\<forall>x y. transformCoordinates proj4 (JArr [JNum (Fin x), JNum (Fin y)])
              = Inr (JArr [JNum (lon x y), JNum (lat x y)]))"
proof -
  have leaf: "\<forall>x y. transformCoordinates proj4 (JArr [JNum (Fin x), JNum (Fin y)])
              = Inr (JArr [JNum (lon x y), JNum (lat x y)])"
    using assms(2) by (simp add: elem_def bindE_def)
  show ?thesis
    using transform_valid[of proj4 lon lat c, OF assms(2) assms(1)]
      shape_valid[OF assms(1), of lon lat] leaf by simp
qed

text \<open>
  The theorem at a polygon with one ring of three points, under the sample projection.
\<close>

theorem transformCoordinates_same_shape_leaves_projected_witness:
  "valid_coords
     (JArr [JArr [JArr [JNum (Fin 500000), JNum (Fin 7500000)],
                  JArr [JNum (Fin 500100), JNum (Fin 7500000)],
                  JArr [JNum (Fin 500000), JNum (Fin 7500100)]]])
   \<and> transformCoordinates sample_projection
     (JArr [JArr [JArr [JNum (Fin 500000), JNum (Fin 7500000)],
                  JArr [JNum (Fin 500100), JNum (Fin 7500000)],
                  JArr [JNum (Fin 500000), JNum (Fin 7500100)]]])
     = Inr (JArr [JArr [JArr [JNum (Fin 0), JNum (Fin (- 2500000))],
                        JArr [JNum (Fin 100), JNum (Fin (- 2500000))],
                        JArr [JNum (Fin 0), JNum (Fin (- 2499900))]]])"
proof -
  let ?c = "JArr [JArr [JArr [JNum (Fin 500000), JNum (Fin 7500000)],
                  JArr [JNum (Fin 500100), JNum (Fin 7500000)],
                  JArr [JNum (Fin 500000), JNum (Fin 7500100)]]]"
  have v: "valid_coords ?c" by simp
  have p: "\<And>x y. sample_projection [JNum (Fin x), JNum (Fin y)]
             = Inr [JNum (Fin (x - 500000)), JNum (Fin (y - 10000000))]"
    by (simp add: sample_projection_def)
  from transformCoordinates_same_shape_leaves_projected[of ?c sample_projection
      "\<lambda>x y. Fin (x - 500000)" "\<lambda>x y. Fin (y - 10000000)", OF v p]
  show ?thesis using v by simp
qed

section \<open>Properties of the legend builder\<close>















text \<open>
  The guard of the effect: mounted before the map exists, the component attaches no
  legend.
\<close>

lemma mount_without_map: "controls (mount False) = [] \<and> cleanup (mount False) = None"
  by (simp add: mount_def legend_effect_def)




section \<open>Properties of the document transform\<close>

lemma fresh_mono: "fresh m v \<Longrightarrow> n \<le> m \<Longrightarrow> fresh n v"
  by (cases v) auto

lemma alloc_fresh:
  "n \<le> length h \<Longrightarrow> alloc h t = (h', v) \<Longrightarrow>
     (\<exists>ext. h' = h @ ext \<and> (\<forall>c \<in> set ext. \<forall>w \<in> set (cell_values c). fresh n w)) \<and> fresh n v"
  "n \<le> length h \<Longrightarrow> alloc_list h ts = (h', vs) \<Longrightarrow>
     (\<exists>ext. h' = h @ ext \<and> (\<forall>c \<in> set ext. \<forall>w \<in> set (cell_values c). fresh n w))
     \<and> (\<forall>w \<in> set vs. fresh n w)"
  "n \<le> length h \<Longrightarrow> alloc_props h kts = (h', ps) \<Longrightarrow>
     (\<exists>ext. h' = h @ ext \<and> (\<forall>c \<in> set ext. \<forall>w \<in> set (cell_values c). fresh n w))
     \<and> (\<forall>w \<in> set (map snd ps). fresh n w)"
proof (induction h t and h ts and h kts arbitrary: h' v and h' vs and h' ps
    rule: alloc_alloc_list_alloc_props.induct)
  case (6 h xs)
  obtain h1 ws where a: "alloc_list h xs = (h1, ws)" by (cases "alloc_list h xs")
  from "6.IH"[OF "6.prems"(1) a] obtain ext where
    e: "h1 = h @ ext" "\<forall>c \<in> set ext. \<forall>w \<in> set (cell_values c). fresh n w"
    and w: "\<forall>w \<in> set ws. fresh n w" by blast
  from "6.prems"(2) a have r: "h' = h1 @ [ArrayCell ws]" "v = HRef (length h1)" by simp_all
  have "h' = h @ (ext @ [ArrayCell ws])" using r e by simp
  moreover have "\<forall>c \<in> set (ext @ [ArrayCell ws]). \<forall>w \<in> set (cell_values c). fresh n w"
    using e w by auto
  moreover have "fresh n v" using r e "6.prems"(1) by simp
  ultimately show ?case by blast
next
  case (7 h kvs)
  obtain h1 qs where a: "alloc_props h kvs = (h1, qs)" by (cases "alloc_props h kvs")
  from "7.IH"[OF "7.prems"(1) a] obtain ext where
    e: "h1 = h @ ext" "\<forall>c \<in> set ext. \<forall>w \<in> set (cell_values c). fresh n w"
    and w: "\<forall>w \<in> set (map snd qs). fresh n w" by blast
  from "7.prems"(2) a have r: "h' = h1 @ [ObjectCell qs]" "v = HRef (length h1)" by simp_all
  have "h' = h @ (ext @ [ObjectCell qs])" using r e by simp
  moreover have "\<forall>c \<in> set (ext @ [ObjectCell qs]). \<forall>w \<in> set (cell_values c). fresh n w"
    using e w by auto
  moreover have "fresh n v" using r e "7.prems"(1) by simp
  ultimately show ?case by blast
next
  case (9 h x xs)
  obtain h1 w where a: "alloc h x = (h1, w)" by (cases "alloc h x")
  obtain h2 ws where b: "alloc_list h1 xs = (h2, ws)" by (cases "alloc_list h1 xs")
  from "9.IH"(1)[OF "9.prems"(1) a] obtain e1 where
    e1: "h1 = h @ e1" "\<forall>c \<in> set e1. \<forall>w \<in> set (cell_values c). fresh n w"
    and w: "fresh n w" by blast
  have n1: "n \<le> length h1" using e1 "9.prems"(1) by simp
  from "9.IH"(2)[OF a[symmetric] n1 b] obtain e2 where
    e2: "h2 = h1 @ e2" "\<forall>c \<in> set e2. \<forall>w \<in> set (cell_values c). fresh n w"
    and ws: "\<forall>w \<in> set ws. fresh n w" by blast
  from "9.prems"(2) a b have r: "h' = h2" "vs = w # ws" by simp_all
  have "h' = h @ (e1 @ e2)" using r e1 e2 by simp
  moreover have "\<forall>c \<in> set (e1 @ e2). \<forall>w \<in> set (cell_values c). fresh n w"
    using e1 e2 by auto
  moreover have "\<forall>x \<in> set vs. fresh n x" using r w ws by simp
  ultimately show ?case by blast
next
  case (11 h p ps0)
  obtain h1 w where a: "alloc h (snd p) = (h1, w)" by (cases "alloc h (snd p)")
  obtain h2 qs where b: "alloc_props h1 ps0 = (h2, qs)" by (cases "alloc_props h1 ps0")
  from "11.IH"(1)[OF "11.prems"(1) a] obtain e1 where
    e1: "h1 = h @ e1" "\<forall>c \<in> set e1. \<forall>w \<in> set (cell_values c). fresh n w"
    and w: "fresh n w" by blast
  have n1: "n \<le> length h1" using e1 "11.prems"(1) by simp
  from "11.IH"(2)[OF a[symmetric] n1 b] obtain e2 where
    e2: "h2 = h1 @ e2" "\<forall>c \<in> set e2. \<forall>w \<in> set (cell_values c). fresh n w"
    and ws: "\<forall>w \<in> set (map snd qs). fresh n w" by blast
  from "11.prems"(2) a b have r: "h' = h2" "ps = (fst p, w) # qs" by simp_all
  have "h' = h @ (e1 @ e2)" using r e1 e2 by simp
  moreover have "\<forall>c \<in> set (e1 @ e2). \<forall>w \<in> set (cell_values c). fresh n w"
    using e1 e2 by auto
  moreover have "\<forall>x \<in> set (map snd ps). fresh n x" using r w ws by simp
  ultimately show ?case by blast
qed auto

lemma closed_fromD:
  "closed_from n h \<Longrightarrow> n \<le> a \<Longrightarrow> a < length h \<Longrightarrow> x \<in> set (cell_values (h ! a)) \<Longrightarrow> fresh n x"
  unfolding closed_from_def by blast

lemma closed_from_append:
  assumes "closed_from n h" "\<forall>c \<in> set ext. \<forall>w \<in> set (cell_values c). fresh n w"
  shows "closed_from n (h @ ext)"
  unfolding closed_from_def
proof (intro allI impI)
  fix a assume a: "n \<le> a \<and> a < length (h @ ext)"
  show "\<forall>v \<in> set (cell_values ((h @ ext) ! a)). fresh n v"
  proof (cases "a < length h")
    case True
    then show ?thesis using assms(1) a by (simp add: closed_from_def nth_append)
  next
    case False
    then have "a - length h < length ext" using a by auto
    then have "ext ! (a - length h) \<in> set ext" by (rule nth_mem)
    then have "(h @ ext) ! a \<in> set ext" using False by (simp add: nth_append)
    then show ?thesis using assms(2) by blast
  qed
qed

lemma hget_fresh:
  assumes "closed_from n h" "fresh n v" "hget h v k = Inr w"
  shows "fresh n w"
proof (cases v)
  case (HRef a)
  show ?thesis
  proof (cases "length h \<le> a")
    case True
    then show ?thesis using assms(3) HRef by simp
  next
    case False
    then have cl: "\<forall>x \<in> set (cell_values (h ! a)). fresh n x"
      using closed_fromD[OF assms(1), of a] assms(2) HRef by simp
    show ?thesis
    proof (cases "h ! a")
      case (ArrayCell vs)
      then show ?thesis using assms(3) HRef False by auto
    next
      case (ObjectCell kvs)
      show ?thesis
      proof (cases "map_of kvs k")
        case None
        then show ?thesis using assms(3) HRef False ObjectCell by auto
      next
        case (Some x)
        then have "x \<in> set (map snd kvs)" by (force dest: map_of_SomeD)
        then show ?thesis using assms(3) HRef False ObjectCell Some cl by auto
      qed
    qed
  qed
qed (use assms(3) in auto)

lemma array_elements_fresh:
  assumes "closed_from n h" "fresh n v" "array_elements h v = Inr fs"
  shows "\<forall>x \<in> set fs. fresh n x"
proof (cases v)
  case (HRef a)
  show ?thesis
  proof (cases "length h \<le> a")
    case True
    then show ?thesis using assms(3) HRef by simp
  next
    case False
    then have cl: "\<forall>x \<in> set (cell_values (h ! a)). fresh n x"
      using closed_fromD[OF assms(1), of a] assms(2) HRef by simp
    then show ?thesis using assms(3) HRef False by (cases "h ! a") auto
  qed
qed (use assms(3) in auto)

lemma set_prop_values: "set (map snd (set_prop k v kvs)) \<subseteq> insert v (set (map snd kvs))"
  by (induction kvs) auto

lemma hset_keeps:
  assumes "closed_from n h" "fresh n g" "fresh n v"
  shows "closed_from n (hset h g k v)" and "length (hset h g k v) = length h"
    and "take n (hset h g k v) = take n h"
proof -
  show "length (hset h g k v) = length h"
    by (cases g) (auto split: cell.splits)
  show "take n (hset h g k v) = take n h"
    using assms(2) by (cases g) (auto split: cell.splits)
  show "closed_from n (hset h g k v)"
  proof (cases g)
    case (HRef a)
    show ?thesis
    proof (cases "length h \<le> a")
      case True
      then show ?thesis using assms(1) HRef by simp
    next
      case False
      show ?thesis
      proof (cases "h ! a")
        case (ArrayCell vs)
        then show ?thesis using assms(1) HRef False by simp
      next
        case (ObjectCell kvs)
        have old: "\<forall>x \<in> set (map snd kvs). fresh n x"
          using closed_fromD[OF assms(1), of a] assms(2) HRef False ObjectCell by simp
        have new: "\<forall>x \<in> set (map snd (set_prop k v kvs)). fresh n x"
          using set_prop_values[of k v kvs] old assms(3) by blast
        have eq: "hset h g k v = h[a := ObjectCell (set_prop k v kvs)]"
          using HRef False ObjectCell by simp
        show ?thesis unfolding eq closed_from_def
        proof (intro allI impI)
          fix b assume b: "n \<le> b \<and> b < length (h[a := ObjectCell (set_prop k v kvs)])"
          show "\<forall>x \<in> set (cell_values (h[a := ObjectCell (set_prop k v kvs)] ! b)). fresh n x"
          proof (cases "b = a")
            case True
            then show ?thesis using new False by simp
          next
            case False
            then show ?thesis using assms(1) b by (simp add: closed_from_def)
          qed
        qed
      qed
    qed
  qed (use assms(1) in auto)
qed

lemma new_coordinates_fresh:
  assumes "closed_from n h" "fresh n feature"
    "new_coordinates proj4 h feature = Inr (Some (g, r))"
  shows "fresh n g"
proof -
  obtain geometry where ge: "hget h feature ''geometry'' = Inr geometry"
    using assms(3) by (cases "hget h feature ''geometry''") (auto simp: new_coordinates_def bindE_def)
  have "g = geometry"
    using assms(3) ge
    by (auto simp: new_coordinates_def bindE_def split: if_splits sum.splits)
  then show ?thesis using hget_fresh[OF assms(1,2) ge] by simp
qed

lemma transform_feature_keeps:
  assumes "closed_from n h" "n \<le> length h" "fresh n feature"
    "transform_feature proj4 h feature = (h', r)"
  shows "closed_from n h' \<and> length h \<le> length h' \<and> take n h' = take n h"
proof (cases "new_coordinates proj4 h feature")
  case (Inl e)
  then show ?thesis using assms(1,4) by (simp add: transform_feature_def)
next
  case (Inr u)
  show ?thesis
  proof (cases u)
    case None
    then show ?thesis using assms(1,4) Inr by (simp add: transform_feature_def)
  next
    case (Some gr)
    obtain g t where gr: "gr = (g, t)" by (cases gr)
    obtain h1 v where a: "alloc h t = (h1, v)" by (cases "alloc h t")
    have fg: "fresh n g" using new_coordinates_fresh[OF assms(1,3)] Inr Some gr by simp
    from alloc_fresh(1)[OF assms(2) a] obtain ext where
      e: "h1 = h @ ext" "\<forall>c \<in> set ext. \<forall>w \<in> set (cell_values c). fresh n w"
      and fv: "fresh n v" by blast
    have c1: "closed_from n h1" using closed_from_append[OF assms(1) e(2)] e(1) by simp
    have h': "h' = hset h1 g ''coordinates'' v"
      using assms(4) Inr Some gr a by (simp add: transform_feature_def)
    have "take n h1 = take n h" using e(1) assms(2) by simp
    then show ?thesis
      using hset_keeps[OF c1 fg fv, of "''coordinates''"] h' e(1) by simp
  qed
qed

lemma transform_features_keeps:
  "closed_from n h \<Longrightarrow> n \<le> length h \<Longrightarrow> \<forall>f \<in> set fs. fresh n f
   \<Longrightarrow> transform_features proj4 h fs = (h', r)
   \<Longrightarrow> closed_from n h' \<and> length h \<le> length h' \<and> take n h' = take n h"
proof (induction fs arbitrary: h)
  case Nil
  then show ?case by simp
next
  case (Cons f fs)
  obtain h1 r1 where s: "transform_feature proj4 h f = (h1, r1)"
    by (cases "transform_feature proj4 h f")
  have k: "closed_from n h1 \<and> length h \<le> length h1 \<and> take n h1 = take n h"
    using transform_feature_keeps[OF Cons.prems(1,2) _ s] Cons.prems(3) by simp
  show ?case
  proof (cases r1)
    case (Inl e)
    then show ?thesis using Cons.prems(4) s k by simp
  next
    case (Inr u)
    then have "transform_features proj4 h1 fs = (h', r)" using Cons.prems(4) s by simp
    from Cons.IH[OF _ _ _ this] k Cons.prems(2,3) show ?thesis by simp
  qed
qed

lemma closed_from_length: "closed_from (length h) h"
  by (auto simp: closed_from_def)

lemma sequenceE_map_cong:
  "(\<And>x. x \<in> set xs \<Longrightarrow> f x = g x) \<Longrightarrow> sequenceE (map f xs) = sequenceE (map g xs)"
  by (induction xs) simp_all

lemma wf_heap_cell:
  assumes "wf_heap h" "a < length h" "x \<in> set (cell_values (h ! a))"
  shows "valid_val h x"
proof -
  have "h ! a \<in> set h" using assms(2) by (rule nth_mem)
  then show ?thesis using assms(1,3) by (auto simp: wf_heap_def list_all_iff)
qed

lemma snapshot_extension:
  "wf_heap h \<Longrightarrow> take (length h) h' = h \<Longrightarrow> valid_val h v
   \<Longrightarrow> snapshot h' st v = snapshot h st v"
proof (induction h st v rule: snapshot.induct)
  case (6 h st a)
  note wf = "6.prems"(1) and pre = "6.prems"(2)
  have len: "length h \<le> length h'"
    using pre by (metis length_take min.cobounded1)
  have a: "a < length h" using "6.prems"(3) by simp
  have cell: "h' ! a = h ! a" using pre a by (metis nth_take)
  show ?case
  proof (cases "a \<in> set st")
    case True
    then show ?thesis by simp
  next
    case False
    then have guard: "\<not> (a \<in> set st \<or> length h \<le> a)" using a by simp
    show ?thesis
    proof (cases "h ! a")
      case (ArrayCell vs)
      have "\<And>x. x \<in> set vs \<Longrightarrow> snapshot h' (a # st) x = snapshot h (a # st) x"
        using "6.IH"(1)[OF guard ArrayCell _ wf pre] wf_heap_cell[OF wf a] ArrayCell by simp
      then have "sequenceE (map (snapshot h' (a # st)) vs)
                 = sequenceE (map (snapshot h (a # st)) vs)"
        by (rule sequenceE_map_cong)
      then show ?thesis using guard len a cell ArrayCell by simp
    next
      case (ObjectCell kvs)
      have "\<And>p. p \<in> set kvs \<Longrightarrow> snapshot h' (a # st) (snd p) = snapshot h (a # st) (snd p)"
        using "6.IH"(2)[OF guard ObjectCell _ wf pre] wf_heap_cell[OF wf a] ObjectCell by simp
      then have "sequenceE (map (\<lambda>p. bindE (snapshot h' (a # st) (snd p)) (\<lambda>x. Inr (fst p, x))) kvs)
                 = sequenceE (map (\<lambda>p. bindE (snapshot h (a # st) (snd p)) (\<lambda>x. Inr (fst p, x))) kvs)"
        by (intro sequenceE_map_cong) simp
      then show ?thesis using guard len a cell ObjectCell by simp
    qed
  qed
qed simp_all

text \<open>
  Claim C3. Whatever \<open>transformGeoJSON\<close> returns or throws, the store after the call
  extends the store before it: every array and object that existed keeps its contents,
  those of the argument among them. A returned reference is to a new cell, and no new
  cell refers to an old one: the result is a fresh structure. In a well-formed store
  the tree of the argument after the call is its tree before the call.
\<close>

theorem transformGeoJSON_does_not_mutate:
  assumes "transformGeoJSON proj4 h geojson = (h', r)"
  shows "length h \<le> length h' \<and> take (length h) h' = h
    \<and> (\<forall>a. r = Inr (HRef a) \<longrightarrow> length h \<le> a)
    \<and> closed_from (length h) h'
    \<and> (wf_heap h \<and> valid_val h geojson \<longrightarrow> snapshot h' [] geojson = snapshot h [] geojson)"
proof -
  let ?n = "length h"
  have main: "closed_from ?n h' \<and> ?n \<le> length h' \<and> take ?n h' = take ?n h
      \<and> (\<forall>v. r = Inr v \<longrightarrow> fresh ?n v)"
  proof (cases "bindE (snapshot h [] geojson) json_roundtrip")
    case (Inl e)
    then show ?thesis using assms closed_from_length[of h] by (auto simp: transformGeoJSON_def)
  next
    case (Inr doc)
    obtain h1 transformed where al: "alloc h doc = (h1, transformed)" by (cases "alloc h doc")
    from alloc_fresh(1)[OF order_refl al] obtain ext where
      e: "h1 = h @ ext" "\<forall>c \<in> set ext. \<forall>w \<in> set (cell_values c). fresh ?n w"
      and ft: "fresh ?n transformed" by blast
    have c1: "closed_from ?n h1"
      using closed_from_append[OF closed_from_length e(2)] e(1) by simp
    have k1: "?n \<le> length h1" "take ?n h1 = take ?n h" using e(1) by simp_all
    show ?thesis
    proof (cases "hget h1 transformed ''features''")
      case (Inl e)
      then show ?thesis using assms Inr al c1 k1 by (auto simp: transformGeoJSON_def)
    next
      case features: (Inr features)
      have ff: "fresh ?n features" by (rule hget_fresh[OF c1 ft features])
      show ?thesis
      proof (cases "htruthy features")
        case False
        then show ?thesis using assms Inr al features c1 k1 ft
          by (auto simp: transformGeoJSON_def)
      next
        case True
        show ?thesis
        proof (cases "array_elements h1 features")
          case (Inl e)
          then show ?thesis using assms Inr al features True c1 k1
            by (auto simp: transformGeoJSON_def)
        next
          case fs: (Inr fs)
          obtain h2 r2 where tf: "transform_features proj4 h1 fs = (h2, r2)"
            by (cases "transform_features proj4 h1 fs")
          have k2: "closed_from ?n h2 \<and> length h1 \<le> length h2 \<and> take ?n h2 = take ?n h1"
            using transform_features_keeps[OF c1 k1(1) array_elements_fresh[OF c1 ff fs] tf] .
          have "h' = h2 \<and> (\<forall>v. r = Inr v \<longrightarrow> v = transformed)"
            using assms Inr al features True fs tf
            by (cases r2) (auto simp: transformGeoJSON_def)
          then show ?thesis using k2 k1 ft by auto
        qed
      qed
    qed
  qed
  then have t: "take ?n h' = h" and l: "?n \<le> length h'" by simp_all
  have "\<forall>a. r = Inr (HRef a) \<longrightarrow> ?n \<le> a" using main by auto
  moreover have "wf_heap h \<and> valid_val h geojson \<longrightarrow> snapshot h' [] geojson = snapshot h [] geojson"
    using snapshot_extension[of h h' geojson "[]"] t by blast
  ultimately show ?thesis using main t l by blast
qed

lemma sample_snapshot:
  "snapshot sample_heap [] (HRef 4) =
     Inr (JObj [(''features'', JArr [JObj [(''geometry'',
            JObj [(''coordinates'', JArr [JNum (Fin 500000), JNum (Fin 7500000)])])]])])"
  by (simp add: sample_heap_def bindE_def)

lemma sample_run:
  "transformGeoJSON sample_projection sample_heap (HRef 4) =
     (sample_heap @
        [ArrayCell [HNum (Fin 500000), HNum (Fin 7500000)],
         ObjectCell [(''coordinates'', HRef 10)],
         ObjectCell [(''geometry'', HRef 6)],
         ArrayCell [HRef 7],
         ObjectCell [(''features'', HRef 8)],
         ArrayCell [HNum (Fin 0), HNum (Fin (- 2500000))]],
      Inr (HRef 9))"
  unfolding transformGeoJSON_def sample_snapshot
  by (simp add: sample_heap_def bindE_def json_roundtrip_def transform_feature_def
      new_coordinates_def sample_projection_def elem_def)

lemma sample_run_in_place:
  "transformGeoJSON_in_place sample_projection sample_heap (HRef 4) =
     ([ArrayCell [HNum (Fin 500000), HNum (Fin 7500000)],
       ObjectCell [(''coordinates'', HRef 5)],
       ObjectCell [(''geometry'', HRef 1)],
       ArrayCell [HRef 2],
       ObjectCell [(''features'', HRef 3)],
       ArrayCell [HNum (Fin 0), HNum (Fin (- 2500000))]],
      Inr (HRef 4))"
  unfolding transformGeoJSON_in_place_def
  by (simp add: sample_heap_def bindE_def transform_feature_def
      new_coordinates_def sample_projection_def elem_def)

text \<open>
  The theorem at the sample store, with the document at address 4: the call returns
  the clone at address 9, the five cells of the argument are as before, and the tree
  of the argument is unchanged.
\<close>

theorem transformGeoJSON_does_not_mutate_witness:
  "transformGeoJSON sample_projection sample_heap (HRef 4) =
     (sample_heap @
        [ArrayCell [HNum (Fin 500000), HNum (Fin 7500000)],
         ObjectCell [(''coordinates'', HRef 10)],
         ObjectCell [(''geometry'', HRef 6)],
         ArrayCell [HRef 7],
         ObjectCell [(''features'', HRef 8)],
         ArrayCell [HNum (Fin 0), HNum (Fin (- 2500000))]],
      Inr (HRef 9))
   \<and> wf_heap sample_heap \<and> valid_val sample_heap (HRef 4)
   \<and> take (length sample_heap)
        (sample_heap @
          [ArrayCell [HNum (Fin 500000), HNum (Fin 7500000)],
           ObjectCell [(''coordinates'', HRef 10)],
           ObjectCell [(''geometry'', HRef 6)],
           ArrayCell [HRef 7],
           ObjectCell [(''features'', HRef 8)],
           ArrayCell [HNum (Fin 0), HNum (Fin (- 2500000))]]) = sample_heap
   \<and> snapshot
        (sample_heap @
          [ArrayCell [HNum (Fin 500000), HNum (Fin 7500000)],
           ObjectCell [(''coordinates'', HRef 10)],
           ObjectCell [(''geometry'', HRef 6)],
           ArrayCell [HRef 7],
           ObjectCell [(''features'', HRef 8)],
           ArrayCell [HNum (Fin 0), HNum (Fin (- 2500000))]]) [] (HRef 4)
       = snapshot sample_heap [] (HRef 4)"
proof -
  have wf: "wf_heap sample_heap" "valid_val sample_heap (HRef 4)"
    by (simp_all add: wf_heap_def sample_heap_def)
  from transformGeoJSON_does_not_mutate[OF sample_run]
  show ?thesis using sample_run wf by blast
qed

text \<open>
  For comparison: without the clone the same loop assigns to the geometry object of its
  argument, at address 1 of the sample store.
\<close>

lemma transformGeoJSON_in_place_mutates:
  "fst (transformGeoJSON_in_place sample_projection sample_heap (HRef 4)) ! 1
     = ObjectCell [(''coordinates'', HRef 5)]
   \<and> sample_heap ! 1 = ObjectCell [(''coordinates'', HRef 0)]"
  by (simp add: sample_run_in_place) (simp add: sample_heap_def)

end
